theory Spec2Isabelle
  imports Complex_Main "HOL-Library.Word"
begin

section \<open>EDOPro HD Pics Downloader: the download engine\<close>

text \<open>
  A shallow embedding of the download engine of \<^verbatim>\<open>EDOPro-HD-Pics-Downloader.py\<close>:
  the integrity validator, the task builder and its filters, fetch-with-retry, the
  per-task worker, the coordinator and the start handler of the control plane.
  Python's exceptions are values, the file system and the network are explicit
  arguments, and every loop is a recursive function.
\<close>

subsection \<open>Bytes, exceptions and the file system\<close>

type_synonym byte = "8 word"

text \<open>The exception classes the engine raises or catches, each with the text of \<^verbatim>\<open>str(e)\<close>.\<close>

datatype exn =
    OSError string
  | URLError string
  | HTTPError string
  | ValueError string
  | TypeError string
  | OverflowError string
  | InterruptedError string
  | HTTPException string
  | AttributeError string

fun exn_str :: "exn \<Rightarrow> string" where
  "exn_str (OSError m) = m"
| "exn_str (URLError m) = m"
| "exn_str (HTTPError m) = m"
| "exn_str (ValueError m) = m"
| "exn_str (TypeError m) = m"
| "exn_str (OverflowError m) = m"
| "exn_str (InterruptedError m) = m"
| "exn_str (HTTPException m) = m"
| "exn_str (AttributeError m) = m"

datatype node = File "byte list" | Dir

text \<open>
  The part of the file system the engine touches. \<open>nodes\<close> maps a path, spelled as
  the code spells it, to what is there; \<open>listing\<close> is what \<^verbatim>\<open>os.listdir\<close> returns for a
  directory (\<open>None\<close> when it raises). The other fields hold for the paths on which the
  operating system refuses one call: \<open>no_read\<close> the opening for reading, \<open>no_write\<close> the
  opening for writing, \<open>no_remove\<close> \<^verbatim>\<open>os.remove\<close>, and \<open>no_replace\<close> \<^verbatim>\<open>os.replace\<close> of the
  first path onto the second.
\<close>

record filesystem =
  nodes :: "string \<Rightarrow> node option"
  listing :: "string \<Rightarrow> string list option"
  no_read :: "string \<Rightarrow> bool"
  no_write :: "string \<Rightarrow> bool"
  no_remove :: "string \<Rightarrow> bool"
  no_replace :: "string \<Rightarrow> string \<Rightarrow> bool"

definition os_path_exists :: "filesystem \<Rightarrow> string \<Rightarrow> bool" where
  "os_path_exists fs p = (nodes fs p \<noteq> None)"

definition os_path_isdir :: "filesystem \<Rightarrow> string \<Rightarrow> bool" where
  "os_path_isdir fs p = (nodes fs p = Some Dir)"

definition os_path_isfile :: "filesystem \<Rightarrow> string \<Rightarrow> bool" where
  "os_path_isfile fs p = (case nodes fs p of Some (File bs) \<Rightarrow> True | _ \<Rightarrow> False)"

text \<open>\<^verbatim>\<open>os.path.join\<close> of two components, as \<^verbatim>\<open>posixpath\<close> computes it.\<close>

definition os_path_join :: "string \<Rightarrow> string \<Rightarrow> string" where
  "os_path_join a b =
     (if b \<noteq> [] \<and> hd b = CHR ''/'' then b
      else if a = [] \<or> last a = CHR ''/'' then a @ b
      else a @ ''/'' @ b)"

text \<open>
  \<^verbatim>\<open>os.path.dirname\<close>, as \<^verbatim>\<open>posixpath\<close> computes it: the path up to its last slash,
  without the slashes at its end unless it consists of slashes.
\<close>

definition os_path_dirname :: "string \<Rightarrow> string" where
  "os_path_dirname p =
     (let head = rev (dropWhile (\<lambda>c. c \<noteq> CHR ''/'') (rev p))
      in if filter (\<lambda>c. c \<noteq> CHR ''/'') head \<noteq> []
         then rev (dropWhile (\<lambda>c. c = CHR ''/'') (rev head))
         else head)"

text \<open>
  \<^verbatim>\<open>repr\<close> of a string, which \<^verbatim>\<open>str(e)\<close> of an \<^verbatim>\<open>OSError\<close> puts around the paths: single
  quotes, or double quotes when the string has a single quote and no double one;
  the backslash, the quote in use and the control characters are escaped.
\<close>

definition hex_digit :: "nat \<Rightarrow> char" where
  "hex_digit d = (if d < 10 then char_of (48 + d) else char_of (87 + d))"

definition escape_char :: "char \<Rightarrow> char \<Rightarrow> string" where
  "escape_char q c =
     (let n = (of_char c :: nat)
      in if c = CHR 0x5C then [CHR 0x5C, CHR 0x5C]
         else if c = q then [CHR 0x5C, q]
         else if n = 10 then [CHR 0x5C, CHR ''n'']
         else if n = 13 then [CHR 0x5C, CHR ''r'']
         else if n = 9 then [CHR 0x5C, CHR ''t'']
         else if n < 32 \<or> n = 127 then [CHR 0x5C, CHR ''x'', hex_digit (n div 16), hex_digit (n mod 16)]
         else [c])"

definition py_repr :: "string \<Rightarrow> string" where
  "py_repr s =
     (let q = (if CHR 0x27 \<in> set s \<and> CHR 0x22 \<notin> set s then CHR 0x22 else CHR 0x27)
      in q # concat (map (escape_char q) s) @ [q])"

text \<open>The texts of the errors of the operating system, with the paths of the call.\<close>

definition enoent :: "string \<Rightarrow> exn" where
  "enoent paths = OSError (''[Errno 2] No such file or directory: '' @ paths)"

definition eacces :: "string \<Rightarrow> exn" where
  "eacces paths = OSError (''[Errno 13] Permission denied: '' @ paths)"

definition enotdir :: "string \<Rightarrow> exn" where
  "enotdir paths = OSError (''[Errno 20] Not a directory: '' @ paths)"

definition eisdir :: "string \<Rightarrow> exn" where
  "eisdir paths = OSError (''[Errno 21] Is a directory: '' @ paths)"

text \<open>
  What stands in the way of an entry at \<open>p\<close>: its parent directory is missing or is a
  file. A path without a slash lies in the current directory, which exists.
\<close>

definition parent_error :: "filesystem \<Rightarrow> string \<Rightarrow> string \<Rightarrow> exn option" where
  "parent_error fs p paths =
     (let d = os_path_dirname p
      in if d = [] then None
         else (case nodes fs d of
                 Some Dir \<Rightarrow> None
               | Some (File bs) \<Rightarrow> Some (enotdir paths)
               | None \<Rightarrow> Some (enoent paths)))"

text \<open>\<^verbatim>\<open>os.remove\<close>: raises when there is no file at the path or the removal is refused.\<close>

definition os_remove :: "filesystem \<Rightarrow> string \<Rightarrow> exn + filesystem" where
  "os_remove fs p =
     (case nodes fs p of
        Some (File bs) \<Rightarrow>
          if no_remove fs p then Inl (eacces (py_repr p))
          else Inr (fs\<lparr>nodes := (nodes fs)(p := None)\<rparr>)
      | Some Dir \<Rightarrow> Inl (eisdir (py_repr p))
      | None \<Rightarrow> Inl (enoent (py_repr p)))"

text \<open>
  \<^verbatim>\<open>open(p, "wb")\<close>: creates the file or truncates it; raises when the path is a
  directory, when its parent directory is not there, and when the opening is refused.
\<close>

definition open_wb :: "filesystem \<Rightarrow> string \<Rightarrow> exn + filesystem" where
  "open_wb fs p =
     (if nodes fs p = Some Dir then Inl (eisdir (py_repr p))
      else (case parent_error fs p (py_repr p) of
              Some e \<Rightarrow> Inl e
            | None \<Rightarrow>
                if no_write fs p then Inl (eacces (py_repr p))
                else Inr (fs\<lparr>nodes := (nodes fs)(p \<mapsto> File [])\<rparr>)))"

text \<open>\<^verbatim>\<open>f.write(chunk)\<close> on the file opened at \<open>p\<close>: appends.\<close>

definition f_write :: "filesystem \<Rightarrow> string \<Rightarrow> byte list \<Rightarrow> filesystem" where
  "f_write fs p chunk =
     (case nodes fs p of
        Some (File bs) \<Rightarrow> fs\<lparr>nodes := (nodes fs)(p \<mapsto> File (bs @ chunk))\<rparr>
      | _ \<Rightarrow> fs)"

text \<open>
  \<^verbatim>\<open>os.replace(src, dst)\<close>: moves the file over the destination; raises when the source
  is not a file, the destination is a directory or has no parent directory, and when
  the move is refused.
\<close>

definition os_replace :: "filesystem \<Rightarrow> string \<Rightarrow> string \<Rightarrow> exn + filesystem" where
  "os_replace fs src dst =
     (let paths = py_repr src @ '' -> '' @ py_repr dst
      in case nodes fs src of
           Some (File bs) \<Rightarrow>
             if nodes fs dst = Some Dir then Inl (eisdir paths)
             else (case parent_error fs dst paths of
                     Some e \<Rightarrow> Inl e
                   | None \<Rightarrow>
                       if no_replace fs src dst then Inl (eacces paths)
                       else Inr (fs\<lparr>nodes := (nodes fs)(src := None, dst \<mapsto> File bs)\<rparr>))
         | Some Dir \<Rightarrow>
             (case nodes fs dst of
                Some (File bs) \<Rightarrow> Inl (enotdir paths)
              | _ \<Rightarrow> Inl (eacces paths))
         | None \<Rightarrow> Inl (enoent paths))"

subsection \<open>Integrity validator\<close>

text \<open>A file opened for reading: its bytes and the position of the next read.\<close>

record file_handle =
  content :: "byte list"
  pos :: nat

definition open_rb :: "filesystem \<Rightarrow> string \<Rightarrow> exn + file_handle" where
  "open_rb fs p =
     (case nodes fs p of
        Some (File bs) \<Rightarrow>
          if no_read fs p then Inl (eacces (py_repr p))
          else Inr \<lparr>content = bs, pos = 0\<rparr>
      | Some Dir \<Rightarrow> Inl (eisdir (py_repr p))
      | None \<Rightarrow> Inl (enoent (py_repr p)))"

text \<open>\<^verbatim>\<open>f.read(n)\<close>: up to \<open>n\<close> bytes from the position, which advances past them.\<close>

definition f_read :: "file_handle \<Rightarrow> nat \<Rightarrow> byte list \<times> file_handle" where
  "f_read h n =
     (let bs = take n (drop (pos h) (content h))
      in (bs, h\<lparr>pos := pos h + length bs\<rparr>))"

text \<open>
  \<^verbatim>\<open>f.seek(offset, whence)\<close>: \<open>whence\<close> 0 counts from the start, 1 from the position,
  2 from the end; a negative target raises.
\<close>

definition f_seek :: "file_handle \<Rightarrow> int \<Rightarrow> nat \<Rightarrow> exn + file_handle" where
  "f_seek h off whence =
     (let base = (if whence = 0 then 0
                  else if whence = 1 then int (pos h)
                  else int (length (content h)));
          target = base + off
      in if target < 0 then Inl (OSError ''Invalid argument'')
         else Inr (h\<lparr>pos := nat target\<rparr>))"

definition f_tell :: "file_handle \<Rightarrow> nat" where
  "f_tell h = pos h"

definition verify_jpeg :: "filesystem \<Rightarrow> string \<Rightarrow> bool" where
  "verify_jpeg fs path =
     (case open_rb fs path of
        Inl e \<Rightarrow> False
      | Inr f \<Rightarrow>
          (case f_read f 2 of (b1, f1) \<Rightarrow>
             if b1 \<noteq> [0xFF, 0xD8] then False
             else (case f_seek f1 (- 2) 2 of
                     Inl e \<Rightarrow> False
                   | Inr f2 \<Rightarrow>
                       (case f_read f2 2 of (b2, f3) \<Rightarrow>
                          if b2 \<noteq> [0xFF, 0xD9] then False
                          else (case f_seek f3 0 2 of
                                  Inl e \<Rightarrow> False
                                | Inr f4 \<Rightarrow>
                                    if f_tell f4 < 1024 then False else True)))))"

text \<open>The words of the specification: readable, long enough, both markers in place.\<close>

definition readable_bytes :: "filesystem \<Rightarrow> string \<Rightarrow> byte list option" where
  "readable_bytes fs p =
     (case nodes fs p of
        Some (File bs) \<Rightarrow> if no_read fs p then None else Some bs
      | _ \<Rightarrow> None)"

definition well_formed_jpeg :: "byte list \<Rightarrow> bool" where
  "well_formed_jpeg bs =
     (1024 \<le> length bs \<and> take 2 bs = [0xFF, 0xD8] \<and> drop (length bs - 2) bs = [0xFF, 0xD9])"

subsection \<open>Strings\<close>

text \<open>
  Python's \<^verbatim>\<open>str\<close> methods on ASCII text: \<^verbatim>\<open>lower\<close>, \<^verbatim>\<open>strip\<close>, \<^verbatim>\<open>startswith\<close>,
  \<^verbatim>\<open>endswith\<close>, the substring test \<^verbatim>\<open>a in b\<close> and \<^verbatim>\<open>str(n)\<close> of an integer.
\<close>

definition lower_char :: "char \<Rightarrow> char" where
  "lower_char c =
     (let n = (of_char c :: nat)
      in if 65 \<le> n \<and> n \<le> 90 then char_of (n + 32) else c)"

definition lower :: "string \<Rightarrow> string" where
  "lower s = map lower_char s"

definition is_space :: "char \<Rightarrow> bool" where
  "is_space c =
     (let n = (of_char c :: nat)
      in (9 \<le> n \<and> n \<le> 13) \<or> (28 \<le> n \<and> n \<le> 32))"

definition strip :: "string \<Rightarrow> string" where
  "strip s = rev (dropWhile is_space (rev (dropWhile is_space s)))"

fun startswith :: "string \<Rightarrow> string \<Rightarrow> bool" where
  "startswith s [] = True"
| "startswith [] (p # ps) = False"
| "startswith (c # cs) (p # ps) = (c = p \<and> startswith cs ps)"

definition endswith :: "string \<Rightarrow> string \<Rightarrow> bool" where
  "endswith s suffix = startswith (rev s) (rev suffix)"

text \<open>\<open>str_in a b\<close> is Python's \<^verbatim>\<open>a in b\<close> on two strings.\<close>

fun str_in :: "string \<Rightarrow> string \<Rightarrow> bool" where
  "str_in a [] = (a = [])"
| "str_in a (c # cs) = (startswith (c # cs) a \<or> str_in a cs)"

definition digit_char :: "nat \<Rightarrow> char" where
  "digit_char d = char_of (48 + d)"

fun nat_str :: "nat \<Rightarrow> string" where
  "nat_str n = (if n < 10 then [digit_char n] else nat_str (n div 10) @ [digit_char (n mod 10)])"

declare nat_str.simps [simp del]

definition int_str :: "int \<Rightarrow> string" where
  "int_str i = (if i < 0 then CHR ''-'' # nat_str (nat (- i)) else nat_str (nat i))"

text \<open>\<^verbatim>\<open>str(x)\<close> of a value that is an integer or \<^verbatim>\<open>None\<close>.\<close>

definition py_str :: "int option \<Rightarrow> string" where
  "py_str x = (case x of None \<Rightarrow> ''None'' | Some i \<Rightarrow> int_str i)"

subsection \<open>JSON values and the conversions of the configuration\<close>

text \<open>
  What \<^verbatim>\<open>json.loads\<close> returns. A float is its exact value when finite; a JSON number too
  large for a double (\<^verbatim>\<open>1e999\<close>) is read as an infinity.
\<close>

datatype pyfloat = Finite rat | PosInf | NegInf | NaN

datatype json =
    JNull
  | JBool bool
  | JInt int
  | JFloat pyfloat
  | JStr string
  | JList "json list"
  | JObj "(string \<times> json) list"

fun truthy :: "json \<Rightarrow> bool" where
  "truthy JNull = False"
| "truthy (JBool b) = b"
| "truthy (JInt n) = (n \<noteq> 0)"
| "truthy (JFloat f) = (f \<noteq> Finite 0)"
| "truthy (JStr s) = (s \<noteq> [])"
| "truthy (JList xs) = (xs \<noteq> [])"
| "truthy (JObj kvs) = (kvs \<noteq> [])"

text \<open>\<^verbatim>\<open>d.get(key, default)\<close> on a dictionary.\<close>

definition dict_get :: "(string \<rightharpoonup> json) \<Rightarrow> string \<Rightarrow> json \<Rightarrow> json" where
  "dict_get d k dflt = (case d k of None \<Rightarrow> dflt | Some v \<Rightarrow> v)"

definition is_digit :: "char \<Rightarrow> bool" where
  "is_digit c = (let n = (of_char c :: nat) in 48 \<le> n \<and> n \<le> 57)"

definition digit_val :: "char \<Rightarrow> int" where
  "digit_val c = int (of_char c) - 48"

text \<open>Decimal digits, a single underscore allowed between two digits.\<close>

fun digits_value :: "int \<Rightarrow> string \<Rightarrow> int option" where
  "digits_value acc [] = Some acc"
| "digits_value acc (c # cs) =
     (if is_digit c then digits_value (acc * 10 + digit_val c) cs
      else if c = CHR ''_'' \<and> cs \<noteq> [] \<and> is_digit (hd cs) then digits_value acc cs
      else None)"

definition unsigned_value :: "string \<Rightarrow> int option" where
  "unsigned_value s = (if s \<noteq> [] \<and> is_digit (hd s) then digits_value 0 s else None)"

text \<open>\<^verbatim>\<open>int(s)\<close> of a string: surrounding white space, an optional sign, decimal digits.\<close>

definition int_of_str :: "string \<Rightarrow> int option" where
  "int_of_str s =
     (case strip s of
        [] \<Rightarrow> None
      | c # cs \<Rightarrow>
          if c = CHR ''+'' then unsigned_value cs
          else if c = CHR ''-'' then map_option uminus (unsigned_value cs)
          else unsigned_value (c # cs))"

text \<open>A finite float converts by truncation towards zero.\<close>

definition trunc :: "rat \<Rightarrow> int" where
  "trunc q = (if 0 \<le> q then \<lfloor>q\<rfloor> else \<lceil>q\<rceil>)"

text \<open>
  \<^verbatim>\<open>int(x)\<close>: \<^verbatim>\<open>ValueError\<close> for a string that is no number and for a NaN,
  \<^verbatim>\<open>OverflowError\<close> for an infinity, \<^verbatim>\<open>TypeError\<close> for \<^verbatim>\<open>None\<close>, a list or a dict.
\<close>

fun py_int :: "json \<Rightarrow> exn + int" where
  "py_int JNull = Inl (TypeError ''int() argument must be a string or a real number'')"
| "py_int (JBool b) = Inr (if b then 1 else 0)"
| "py_int (JInt n) = Inr n"
| "py_int (JFloat (Finite q)) = Inr (trunc q)"
| "py_int (JFloat PosInf) = Inl (OverflowError ''cannot convert float infinity to integer'')"
| "py_int (JFloat NegInf) = Inl (OverflowError ''cannot convert float infinity to integer'')"
| "py_int (JFloat NaN) = Inl (ValueError ''cannot convert float NaN to integer'')"
| "py_int (JStr s) =
     (case int_of_str s of
        None \<Rightarrow> Inl (ValueError ''invalid literal for int() with base 10'')
      | Some n \<Rightarrow> Inr n)"
| "py_int (JList xs) = Inl (TypeError ''int() argument must be a string or a real number'')"
| "py_int (JObj kvs) = Inl (TypeError ''int() argument must be a string or a real number'')"

text \<open>
  \<^verbatim>\<open>try: x = int(x)  except (ValueError, TypeError): x = default\<close>; any other exception
  leaves the block.
\<close>

definition int_or_default :: "json \<Rightarrow> int \<Rightarrow> exn + int" where
  "int_or_default v dflt =
     (case py_int v of
        Inr n \<Rightarrow> Inr n
      | Inl (ValueError m) \<Rightarrow> Inr dflt
      | Inl (TypeError m) \<Rightarrow> Inr dflt
      | Inl e \<Rightarrow> Inl e)"

text \<open>The values \<^verbatim>\<open>download_worker_main\<close> works with once the parameters are read.\<close>

record run_config =
  cfg_picsdir :: json
  cfg_force :: json
  cfg_only_missing :: json
  cfg_validate_existing :: bool
  cfg_concurrency :: int
  cfg_timeout :: int
  cfg_retry :: int
  cfg_rate_limit_kbps :: int
  cfg_type_filter :: json
  cfg_set_filter :: json

text \<open>
  The head of \<^verbatim>\<open>download_worker_main\<close>: the parameters are read with their defaults,
  \<^verbatim>\<open>force\<close> switches \<^verbatim>\<open>only_missing\<close> off, and the four numbers are converted and clamped
  in the order of the source.
\<close>

definition read_params :: "(string \<rightharpoonup> json) \<Rightarrow> exn + run_config" where
  "read_params params =
     (let picsdir = dict_get params ''picsdir'' (JStr ''./pics'');
          force = dict_get params ''force'' (JBool False);
          only_missing = dict_get params ''onlyMissing'' (JBool False);
          validate_existing = truthy (dict_get params ''validateExisting'' (JBool False));
          concurrency = dict_get params ''concurrency'' (JInt 12);
          timeout = dict_get params ''timeout'' (JInt 30);
          retry = dict_get params ''retry'' (JInt 3);
          rate_limit_kbps = dict_get params ''maxKbps'' (JInt 0);
          type_filter = dict_get params ''typeFilter'' (JStr []);
          set_filter = dict_get params ''setFilter'' (JStr []);
          only_missing = (if truthy force then JBool False else only_missing)
      in case int_or_default concurrency 12 of
           Inl e \<Rightarrow> Inl e
         | Inr c \<Rightarrow>
             (let concurrency = max 1 (min 50 c)
              in case int_or_default timeout 30 of
                   Inl e \<Rightarrow> Inl e
                 | Inr t \<Rightarrow>
                     (let timeout = max 10 (min 120 t)
                      in case int_or_default retry 3 of
                           Inl e \<Rightarrow> Inl e
                         | Inr r \<Rightarrow>
                             (let retry = max 1 (min 10 r)
                              in case int_or_default rate_limit_kbps 0 of
                                   Inl e \<Rightarrow> Inl e
                                 | Inr k \<Rightarrow>
                                     (let rate_limit_kbps = (if k < 0 then 0 else k)
                                      in Inr \<lparr>cfg_picsdir = picsdir,
                                              cfg_force = force,
                                              cfg_only_missing = only_missing,
                                              cfg_validate_existing = validate_existing,
                                              cfg_concurrency = concurrency,
                                              cfg_timeout = timeout,
                                              cfg_retry = retry,
                                              cfg_rate_limit_kbps = rate_limit_kbps,
                                              cfg_type_filter = type_filter,
                                              cfg_set_filter = set_filter\<rparr>)))))"

subsection \<open>Catalog entries and download tasks\<close>

text \<open>
  An entry of the catalog as the API delivers it. A field is \<open>None\<close> when its key is
  absent from the JSON object; identifiers are integers, the other fields strings.
\<close>

record card_image =
  img_id :: "int option"
  image_url :: "string option"
  image_url_cropped :: "string option"

record card_set =
  set_name :: "string option"
  set_code :: "string option"

record card =
  c_id :: "int option"
  c_name :: "string option"
  c_type :: "string option"
  card_images :: "card_image list option"
  card_sets :: "card_set list option"

text \<open>The task dictionary, with the keys of the source.\<close>

record task =
  card_id :: "int option"
  name :: string
  image_id :: "int option"
  url :: string
  subfolder :: string

text \<open>Truth values of an optional integer and of an optional string.\<close>

definition truthy_int :: "int option \<Rightarrow> bool" where
  "truthy_int x = (case x of None \<Rightarrow> False | Some n \<Rightarrow> n \<noteq> 0)"

definition truthy_str :: "string option \<Rightarrow> bool" where
  "truthy_str x = (case x of None \<Rightarrow> False | Some s \<Rightarrow> s \<noteq> [])"

text \<open>
  An image dictionary is true when it has a key. Only the three keys above are
  modelled; an image without \<^verbatim>\<open>image_url_cropped\<close> yields no field task either way.
\<close>

definition truthy_image :: "card_image \<Rightarrow> bool" where
  "truthy_image img = (img_id img \<noteq> None \<or> image_url img \<noteq> None \<or> image_url_cropped img \<noteq> None)"

text \<open>The inner loop of \<^verbatim>\<open>build_download_tasks\<close>: \<^verbatim>\<open>for img in images\<close>.\<close>

fun images_loop :: "int option \<Rightarrow> string \<Rightarrow> card_image list \<Rightarrow> task list \<Rightarrow> task list" where
  "images_loop cid nm [] tasks = tasks"
| "images_loop cid nm (img # imgs) tasks =
     (let img_id' = img_id img;
          img_url = image_url img
      in if truthy_int img_id' \<and> truthy_str img_url
         then images_loop cid nm imgs
                (tasks @ [\<lparr>card_id = cid, name = nm, image_id = img_id',
                            url = the img_url, subfolder = []\<rparr>])
         else images_loop cid nm imgs tasks)"

text \<open>The outer loop: \<^verbatim>\<open>for card in cards\<close>.\<close>

fun cards_loop :: "card list \<Rightarrow> task list \<Rightarrow> task list" where
  "cards_loop [] tasks = tasks"
| "cards_loop (c # cs) tasks =
     (let cid = c_id c;
          nm = (case c_name c of None \<Rightarrow> ''Unknown'' | Some n \<Rightarrow> n);
          images = (case card_images c of None \<Rightarrow> [] | Some imgs \<Rightarrow> imgs);
          card_type = (case c_type c of None \<Rightarrow> [] | Some t \<Rightarrow> t);
          tasks1 = images_loop cid nm images tasks;
          tasks2 =
            (if str_in ''Field'' card_type \<and> str_in ''Spell'' card_type
             then (case images of
                     [] \<Rightarrow> tasks1
                   | first_img # rest \<Rightarrow>
                       if truthy_image first_img
                       then (let cropped_url = image_url_cropped first_img
                             in if truthy_str cropped_url
                                then tasks1 @ [\<lparr>card_id = cid, name = nm, image_id = cid,
                                                 url = the cropped_url, subfolder = ''field''\<rparr>]
                                else tasks1)
                       else tasks1)
             else tasks1)
      in cards_loop cs tasks2)"

definition build_download_tasks :: "card list \<Rightarrow> task list" where
  "build_download_tasks cards = cards_loop cards []"

text \<open>
  The words of the specification for one entry: the standard-art tasks, one for every
  image that has an identifier and a URL, and the field-crop task of a Field Spell.
\<close>

definition has_id_and_url :: "card_image \<Rightarrow> bool" where
  "has_id_and_url img =
     ((\<exists>n. img_id img = Some n \<and> n \<noteq> 0) \<and> (\<exists>u. image_url img = Some u \<and> u \<noteq> []))"

definition entry_name :: "card \<Rightarrow> string" where
  "entry_name c = (case c_name c of None \<Rightarrow> ''Unknown'' | Some n \<Rightarrow> n)"

definition entry_images :: "card \<Rightarrow> card_image list" where
  "entry_images c = (case card_images c of None \<Rightarrow> [] | Some imgs \<Rightarrow> imgs)"

definition standard_task :: "card \<Rightarrow> card_image \<Rightarrow> task" where
  "standard_task c img =
     \<lparr>card_id = c_id c, name = entry_name c, image_id = img_id img,
      url = the (image_url img), subfolder = []\<rparr>"

definition standard_tasks :: "card \<Rightarrow> task list" where
  "standard_tasks c = map (standard_task c) (filter has_id_and_url (entry_images c))"

definition is_field_spell :: "card \<Rightarrow> bool" where
  "is_field_spell c =
     (case c_type c of
        None \<Rightarrow> False
      | Some t \<Rightarrow> str_in ''Field'' t \<and> str_in ''Spell'' t)"

definition field_crop_tasks :: "card \<Rightarrow> task list" where
  "field_crop_tasks c =
     (if is_field_spell c
      then (case entry_images c of
              [] \<Rightarrow> []
            | first_img # rest \<Rightarrow>
                (case image_url_cropped first_img of
                   None \<Rightarrow> []
                 | Some u \<Rightarrow>
                     if u = [] then []
                     else [\<lparr>card_id = c_id c, name = entry_name c, image_id = c_id c,
                            url = u, subfolder = ''field''\<rparr>]))
      else [])"

subsection \<open>Entry and task filters\<close>

text \<open>
  \<^verbatim>\<open>(x or "").strip().lower()\<close> of a filter parameter: a false value is the empty
  string, a true value that is no string has no \<^verbatim>\<open>strip\<close>.
\<close>

definition filter_text :: "json \<Rightarrow> exn + string" where
  "filter_text v =
     (if \<not> truthy v then Inr []
      else (case v of
              JStr s \<Rightarrow> Inr (lower (strip s))
            | _ \<Rightarrow> Inl (AttributeError ''object has no attribute strip'')))"

text \<open>The loop over the sets of an entry, left at the first match.\<close>

fun sets_loop :: "string \<Rightarrow> card_set list \<Rightarrow> bool" where
  "sets_loop set_filter [] = False"
| "sets_loop set_filter (s # ss) =
     (let nm = lower (case set_name s of None \<Rightarrow> [] | Some n \<Rightarrow> n);
          code = lower (case set_code s of None \<Rightarrow> [] | Some n \<Rightarrow> n)
      in if str_in set_filter nm \<or> str_in set_filter code then True
         else sets_loop set_filter ss)"

fun filter_cards_loop :: "string \<Rightarrow> string \<Rightarrow> card list \<Rightarrow> card list \<Rightarrow> card list" where
  "filter_cards_loop type_filter set_filter [] filtered = filtered"
| "filter_cards_loop type_filter set_filter (c # cs) filtered =
     (if type_filter \<noteq> [] \<and>
         \<not> str_in type_filter (lower (case c_type c of None \<Rightarrow> [] | Some t \<Rightarrow> t))
      then filter_cards_loop type_filter set_filter cs filtered
      else if set_filter \<noteq> [] \<and>
              \<not> sets_loop set_filter (case card_sets c of None \<Rightarrow> [] | Some ss \<Rightarrow> ss)
      then filter_cards_loop type_filter set_filter cs filtered
      else filter_cards_loop type_filter set_filter cs (filtered @ [c]))"

definition filter_cards :: "card list \<Rightarrow> json \<Rightarrow> json \<Rightarrow> exn + card list" where
  "filter_cards cards type_filter set_filter =
     (if \<not> truthy type_filter \<and> \<not> truthy set_filter then Inr cards
      else (case filter_text type_filter of
              Inl e \<Rightarrow> Inl e
            | Inr tf \<Rightarrow>
                (case filter_text set_filter of
                   Inl e \<Rightarrow> Inl e
                 | Inr sf \<Rightarrow> Inr (filter_cards_loop tf sf cards []))))"

text \<open>The lower-case names of a directory that end in \<^verbatim>\<open>.jpg\<close>; empty when it cannot be listed.\<close>

definition list_existing_images :: "filesystem \<Rightarrow> string \<Rightarrow> string set" where
  "list_existing_images fs directory =
     (case listing fs directory of
        None \<Rightarrow> {}
      | Some names \<Rightarrow> set (map lower (filter (\<lambda>nm. endswith (lower nm) ''.jpg'') names)))"

text \<open>The path a task is written to: the root, or the sub-folder of the task under it.\<close>

definition task_target_dir :: "string \<Rightarrow> task \<Rightarrow> string" where
  "task_target_dir picsdir t =
     (let sub = subfolder t in if sub \<noteq> [] then os_path_join picsdir sub else picsdir)"

definition task_outpath :: "string \<Rightarrow> task \<Rightarrow> string" where
  "task_outpath picsdir t = os_path_join (task_target_dir picsdir t) (py_str (image_id t) @ ''.jpg'')"

text \<open>The loop of \<^verbatim>\<open>filter_tasks\<close>, with its accumulator \<^verbatim>\<open>new_tasks\<close>.\<close>

fun filter_tasks_loop ::
  "filesystem \<Rightarrow> string \<Rightarrow> bool \<Rightarrow> bool \<Rightarrow> string set \<Rightarrow> string set \<Rightarrow> task list \<Rightarrow> task list \<Rightarrow> task list"
where
  "filter_tasks_loop fs picsdir only_missing validate_existing existing_base existing_field [] new_tasks =
     new_tasks"
| "filter_tasks_loop fs picsdir only_missing validate_existing existing_base existing_field (t # ts) new_tasks =
     (let sub = subfolder t;
          fname = lower (py_str (image_id t) @ ''.jpg'');
          exists = (fname \<in> (if sub = ''field'' then existing_field else existing_base))
      in if \<not> exists
         then filter_tasks_loop fs picsdir only_missing validate_existing existing_base existing_field ts
                (new_tasks @ [t])
         else if validate_existing
         then (let outpath = task_outpath picsdir t
               in if \<not> verify_jpeg fs outpath
                  then filter_tasks_loop fs picsdir only_missing validate_existing existing_base
                         existing_field ts (new_tasks @ [t])
                  else filter_tasks_loop fs picsdir only_missing validate_existing existing_base
                         existing_field ts new_tasks)
         else if \<not> only_missing
         then filter_tasks_loop fs picsdir only_missing validate_existing existing_base existing_field ts
                (new_tasks @ [t])
         else filter_tasks_loop fs picsdir only_missing validate_existing existing_base existing_field ts
                new_tasks)"

definition filter_tasks :: "filesystem \<Rightarrow> task list \<Rightarrow> string \<Rightarrow> bool \<Rightarrow> bool \<Rightarrow> task list" where
  "filter_tasks fs tasks picsdir only_missing validate_existing =
     (if \<not> only_missing \<and> \<not> validate_existing then tasks
      else (let existing_base = list_existing_images fs picsdir;
                existing_field = list_existing_images fs (os_path_join picsdir ''field'')
            in filter_tasks_loop fs picsdir only_missing validate_existing existing_base
                 existing_field tasks []))"

text \<open>
  The words of the specification: the target file name of the task is in the listing
  that was scanned.
\<close>

definition target_listed :: "filesystem \<Rightarrow> string \<Rightarrow> task \<Rightarrow> bool" where
  "target_listed fs picsdir t =
     (lower (py_str (image_id t) @ ''.jpg'') \<in>
        list_existing_images fs
          (if subfolder t = ''field'' then os_path_join picsdir ''field'' else picsdir))"

subsection \<open>Fetch with retry\<close>

text \<open>
  What the environment does during one attempt of \<^verbatim>\<open>download_file\<close>. Inside the
  streaming loop each turn either sees the cancel flag set, sees it set after a pause,
  fails in \<^verbatim>\<open>r.read\<close> or \<^verbatim>\<open>f.write\<close>, or reads a chunk; the end of the list, like an
  empty chunk, is the end of the body. A pause that ends without a cancellation only
  delays the turn, and so does the throttle of the rate limit.
\<close>

datatype stream_event =
    Data "byte list"
  | IoFails exn
  | CancelFlagSet
  | CancelWhilePaused

text \<open>
  An attempt finds the cancel flag set before it starts, or \<^verbatim>\<open>urlopen\<close> raises, or
  the server answers with a \<^verbatim>\<open>Content-Type\<close> header (empty when absent) and a body.
\<close>

datatype fetch_script =
    UrlopenRaises exn
  | Response string "stream_event list"

datatype attempt_script =
    CancelledBeforeAttempt
  | Fetch fetch_script

text \<open>
  A computation with effects: its value or exception, the disk it leaves, the number
  of its requests, and whether an \<^verbatim>\<open>os.remove\<close> of its cleanup raised.
\<close>

record 'r run =
  outcome :: "exn + 'r"
  disk :: filesystem
  requests :: nat
  cleanup_failed :: bool

text \<open>
  \<^verbatim>\<open>if os.path.exists(temp): try: os.remove(temp) except Exception: pass\<close>; the second
  component tells whether \<^verbatim>\<open>os.remove\<close> raised.
\<close>

definition remove_if_exists :: "filesystem \<Rightarrow> string \<Rightarrow> filesystem \<times> bool" where
  "remove_if_exists fs temp =
     (if os_path_exists fs temp
      then (case os_remove fs temp of Inl e \<Rightarrow> (fs, True) | Inr fs' \<Rightarrow> (fs', False))
      else (fs, False))"

text \<open>The removal of \<open>p\<close> is not refused and \<open>p\<close> is no directory.\<close>

definition removable :: "filesystem \<Rightarrow> string \<Rightarrow> bool" where
  "removable fs p = (\<not> no_remove fs p \<and> \<not> os_path_isdir fs p)"

text \<open>The \<^verbatim>\<open>while True\<close> loop that copies the body into the temporary file.\<close>

fun stream_loop :: "filesystem \<Rightarrow> string \<Rightarrow> stream_event list \<Rightarrow> exn option \<times> filesystem" where
  "stream_loop fs temp [] = (None, fs)"
| "stream_loop fs temp (CancelFlagSet # evs) =
     (Some (InterruptedError ''Cancelled during download''), fs)"
| "stream_loop fs temp (CancelWhilePaused # evs) =
     (Some (InterruptedError ''Cancelled during pause''), fs)"
| "stream_loop fs temp (IoFails e # evs) = (Some e, fs)"
| "stream_loop fs temp (Data chunk # evs) =
     (if chunk = [] then (None, fs) else stream_loop (f_write fs temp chunk) temp evs)"

text \<open>The body of the \<^verbatim>\<open>try\<close> block: \<open>None\<close> when it reaches \<^verbatim>\<open>return True, None\<close>.\<close>

definition try_download :: "filesystem \<Rightarrow> string \<Rightarrow> string \<Rightarrow> fetch_script \<Rightarrow> exn option \<times> filesystem" where
  "try_download fs temp outpath script =
     (case script of
        UrlopenRaises e \<Rightarrow> (Some e, fs)
      | Response header evs \<Rightarrow>
          (let ctype = lower header
           in if \<not> startswith ctype ''image/jpeg''
              then (Some (ValueError (''Unsupported content type: '' @ ctype)), fs)
              else (case open_wb fs temp of
                      Inl e \<Rightarrow> (Some e, fs)
                    | Inr fs1 \<Rightarrow>
                        (case stream_loop fs1 temp evs of
                           (Some e, fs2) \<Rightarrow> (Some e, fs2)
                         | (None, fs2) \<Rightarrow>
                             if \<not> verify_jpeg fs2 temp
                             then (Some (ValueError ''Downloaded file is not a valid JPEG''), fs2)
                             else (case os_replace fs2 temp outpath of
                                     Inl e \<Rightarrow> (Some e, fs2)
                                   | Inr fs3 \<Rightarrow> (None, fs3))))))"

text \<open>The two \<^verbatim>\<open>except\<close> clauses, by exception class.\<close>

fun is_interrupted :: "exn \<Rightarrow> bool" where
  "is_interrupted (InterruptedError m) = True"
| "is_interrupted e = False"

fun is_retryable :: "exn \<Rightarrow> bool" where
  "is_retryable (URLError m) = True"
| "is_retryable (HTTPError m) = True"
| "is_retryable (ValueError m) = True"
| "is_retryable (OSError m) = True"
| "is_retryable e = False"

text \<open>
  The loop \<^verbatim>\<open>for attempt in range(1, max_retries + 1)\<close> from \<open>attempt\<close> on; \<open>n\<close> counts
  the calls of \<^verbatim>\<open>urlopen\<close> so far.
\<close>

function attempts_loop ::
  "(string \<Rightarrow> nat \<Rightarrow> attempt_script) \<Rightarrow> filesystem \<Rightarrow> string \<Rightarrow> string \<Rightarrow> int \<Rightarrow> int \<Rightarrow> nat
   \<Rightarrow> (bool \<times> string option) run"
where
  "attempts_loop net fs url' outpath max_retries attempt n =
     (let temp = outpath @ ''.part''
      in if attempt > max_retries
         then \<lparr>outcome = Inr (False, Some ''Max retries exceeded''), disk = fs, requests = n,
               cleanup_failed = False\<rparr>
         else (case net url' (nat attempt) of
                 CancelledBeforeAttempt \<Rightarrow>
                   (case remove_if_exists fs temp of
                      (fs1, failed) \<Rightarrow>
                        \<lparr>outcome = Inr (False, Some ''Cancelled by user''), disk = fs1,
                         requests = n, cleanup_failed = failed\<rparr>)
               | Fetch script \<Rightarrow>
                   (case try_download fs temp outpath script of
                      (None, fs') \<Rightarrow>
                        \<lparr>outcome = Inr (True, None), disk = fs', requests = Suc n,
                         cleanup_failed = False\<rparr>
                    | (Some e, fs') \<Rightarrow>
                        if is_interrupted e
                        then (case remove_if_exists fs' temp of
                                (fs1, failed) \<Rightarrow>
                                  \<lparr>outcome = Inr (False, Some (exn_str e)), disk = fs1,
                                   requests = Suc n, cleanup_failed = failed\<rparr>)
                        else if is_retryable e
                        then (if attempt = max_retries
                              then (case remove_if_exists fs' temp of
                                      (fs1, failed) \<Rightarrow>
                                        \<lparr>outcome = Inr (False, Some (''After '' @ int_str max_retries @
                                                                     '' attempts: '' @ exn_str e)),
                                         disk = fs1, requests = Suc n, cleanup_failed = failed\<rparr>)
                              else attempts_loop net fs' url' outpath max_retries (attempt + 1) (Suc n))
                        else \<lparr>outcome = Inl e, disk = fs', requests = Suc n,
                              cleanup_failed = False\<rparr>)))"
  by pat_completeness auto
termination
  by (relation "measure (\<lambda>(net, fs, url', outpath, max_retries, attempt, n). nat (max_retries + 1 - attempt))") auto

declare attempts_loop.simps [simp del]

text \<open>
  The time-out is what makes \<^verbatim>\<open>urlopen\<close> and \<^verbatim>\<open>r.read\<close> raise, and the rate limit only
  makes the loop sleep: both are in the answers of the network, not in the result.
\<close>

definition download_file ::
  "(string \<Rightarrow> nat \<Rightarrow> attempt_script) \<Rightarrow> filesystem \<Rightarrow> string \<Rightarrow> string \<Rightarrow> int \<Rightarrow> int \<Rightarrow> int
   \<Rightarrow> (bool \<times> string option) run"
where
  "download_file net fs url' outpath timeout max_retries rate_limit_kbps =
     attempts_loop net fs url' outpath max_retries 1 0"

subsection \<open>The worker of one task\<close>

datatype status = Success | Skipped | Error | Cancelled

record worker_result =
  res_status :: status
  res_task :: task
  res_error :: "string option"

text \<open>
  What one worker meets: the cancel flag as it reads it on entry, and the network's
  answers by URL and attempt.
\<close>

record worker_env =
  cancel_on_entry :: bool
  network :: "string \<Rightarrow> nat \<Rightarrow> attempt_script"

text \<open>The call of \<^verbatim>\<open>download_file\<close> and the classification of what it returns.\<close>

definition fetch_task ::
  "worker_env \<Rightarrow> filesystem \<Rightarrow> task \<Rightarrow> string \<Rightarrow> int \<Rightarrow> int \<Rightarrow> int \<Rightarrow> worker_result run"
where
  "fetch_task env fs t outpath timeout retry_count rate_limit_kbps =
     (let r = download_file (network env) fs (url t) outpath timeout retry_count rate_limit_kbps
      in case outcome r of
           Inl e \<Rightarrow> \<lparr>outcome = Inl e, disk = disk r, requests = requests r,
                   cleanup_failed = cleanup_failed r\<rparr>
         | Inr (ok, err) \<Rightarrow>
             if ok
             then \<lparr>outcome = Inr \<lparr>res_status = Success, res_task = t, res_error = None\<rparr>,
                   disk = disk r, requests = requests r,
                   cleanup_failed = cleanup_failed r\<rparr>
             else if str_in ''Cancelled'' (case err of None \<Rightarrow> ''None'' | Some m \<Rightarrow> m)
             then \<lparr>outcome = Inr \<lparr>res_status = Cancelled, res_task = t, res_error = None\<rparr>,
                   disk = disk r, requests = requests r,
                   cleanup_failed = cleanup_failed r\<rparr>
             else \<lparr>outcome = Inr \<lparr>res_status = Error, res_task = t, res_error = err\<rparr>,
                   disk = disk r, requests = requests r,
                   cleanup_failed = cleanup_failed r\<rparr>)"

definition download_worker_task ::
  "worker_env \<Rightarrow> filesystem \<Rightarrow> task \<Rightarrow> string \<Rightarrow> bool \<Rightarrow> int \<Rightarrow> int \<Rightarrow> bool \<Rightarrow> int \<Rightarrow> worker_result run"
where
  "download_worker_task env fs t picsdir force timeout retry_count validate_existing rate_limit_kbps =
     (if cancel_on_entry env
      then \<lparr>outcome = Inr \<lparr>res_status = Cancelled, res_task = t, res_error = None\<rparr>,
            disk = fs, requests = 0, cleanup_failed = False\<rparr>
      else (let sub = subfolder t;
                target_dir = (if sub \<noteq> [] then os_path_join picsdir sub else picsdir)
            in if \<not> os_path_isdir fs target_dir
               then \<lparr>outcome = Inr \<lparr>res_status = Error, res_task = t,
                                    res_error = Some (''Target directory not found: '' @ target_dir)\<rparr>,
                     disk = fs, requests = 0, cleanup_failed = False\<rparr>
               else (let fname = py_str (image_id t) @ ''.jpg'';
                         outpath = os_path_join target_dir fname;
                         skipped_result =
                           \<lparr>outcome = Inr \<lparr>res_status = Skipped, res_task = t, res_error = None\<rparr>,
                            disk = fs, requests = 0, cleanup_failed = False\<rparr>
                     in if os_path_exists fs outpath \<and> \<not> force
                        then (if \<not> validate_existing then skipped_result
                              else if verify_jpeg fs outpath then skipped_result
                              else fetch_task env fs t outpath timeout retry_count rate_limit_kbps)
                        else fetch_task env fs t outpath timeout retry_count rate_limit_kbps)))"

subsection \<open>Shared state\<close>

datatype log_type = LInfo | LSuccess | LWarning | LError

text \<open>One constructor for each message the engine logs, with the values it prints.\<close>

datatype log_msg =
    MsgStarting
  | MsgUsingSuggested string
  | MsgInvalidPics string
  | MsgNotAccessible string
  | MsgSaveConfigFailed string
  | MsgOutputDir string
  | MsgFieldMissing
  | MsgConnecting
  | MsgNoData
  | MsgReceived nat
  | MsgApiError string
  | MsgPreparing
  | MsgFiltered nat
  | MsgAllDownloaded
  | MsgPrepared nat
  | MsgConfiguration int int int
  | MsgMode bool
  | MsgRateLimit int
  | MsgValidateEnabled
  | MsgBlank
  | MsgStartingDownloads
  | MsgCancelRequested
  | MsgDownloaded nat nat
  | MsgSkipped nat
  | MsgTaskError string "int option" string
  | MsgUnexpected string
  | MsgRule
  | MsgRunCancelled
  | MsgRunCompleted
  | MsgFinalStatistics
  | MsgStatTotal nat
  | MsgStatDownloaded nat
  | MsgStatSkipped nat
  | MsgStatErrors nat
  | MsgStatTime int
  | MsgStatSpeed nat int
  | MsgSavedTo string
  | MsgErrorsOccurred nat
  | MsgReportError string
  | MsgReportJson string
  | MsgReportMd string
  | MsgFatal string

record log_entry =
  entry_type :: log_type
  entry_message :: log_msg

record error_detail =
  detail_id :: "int option"
  detail_name :: string
  detail_url :: string
  detail_error :: string

record report_paths =
  json_path :: string
  md_path :: string

text \<open>
  The fields of \<^verbatim>\<open>DownloadState\<close>; the lock and the condition variable carry no data.
  The field \<^verbatim>\<open>total\<close> is \<open>total'\<close> here.
\<close>

record download_state =
  running :: bool
  total' :: nat
  processed :: nat
  skipped :: nat
  errors :: nat
  logs :: "log_entry list"
  cancel_flag :: bool
  pause_flag :: bool
  start_time :: "int option"
  error_details :: "error_detail list"
  api_error :: "string option"
  report :: "report_paths option"

text \<open>
  \<^verbatim>\<open>add_log\<close> appends an entry and keeps the last 100; the time stamps of the entry are
  left out. \<^verbatim>\<open>increment\<close> adds one to the counter it is given by name.
\<close>

definition add_log :: "download_state \<Rightarrow> log_msg \<Rightarrow> log_type \<Rightarrow> download_state" where
  "add_log st message ty =
     (let ls = logs st @ [\<lparr>entry_type = ty, entry_message = message\<rparr>]
      in st\<lparr>logs := (if length ls > 100 then drop (length ls - 100) ls else ls)\<rparr>)"

datatype counter = Processed_field | Skipped_field | Errors_field

fun increment :: "download_state \<Rightarrow> counter \<Rightarrow> download_state" where
  "increment st Processed_field = st\<lparr>processed := processed st + 1\<rparr>"
| "increment st Skipped_field = st\<lparr>skipped := skipped st + 1\<rparr>"
| "increment st Errors_field = st\<lparr>errors := errors st + 1\<rparr>"

definition reset :: "download_state \<Rightarrow> download_state" where
  "reset st =
     st\<lparr>running := False, total' := 0, processed := 0, skipped := 0, errors := 0,
        logs := [], cancel_flag := False, pause_flag := False, start_time := None,
        error_details := [], api_error := None, report := None\<rparr>"

text \<open>\<^verbatim>\<open>save_config\<close> touches the state only when it fails: it logs the failure.\<close>

definition save_config :: "download_state \<Rightarrow> string option \<Rightarrow> download_state" where
  "save_config st failure =
     (case failure of
        None \<Rightarrow> st
      | Some m \<Rightarrow> add_log st (MsgSaveConfigFailed m) LError)"

subsection \<open>Resolving the output directory\<close>

record path_info =
  pi_exists :: bool
  pi_is_pics_folder :: bool
  pi_path :: "string option"
  pi_suggested_path :: "string option"

text \<open>\<^verbatim>\<open>os.path.abspath\<close> and \<^verbatim>\<open>os.path.expanduser\<close> depend on the process and are given.\<close>

record path_env =
  abspath :: "string \<Rightarrow> string"
  expanduser :: "string \<Rightarrow> string"

definition basename :: "string \<Rightarrow> string" where
  "basename p = rev (takeWhile (\<lambda>c. c \<noteq> CHR ''/'') (rev p))"

definition analyze_pics_path :: "path_env \<Rightarrow> filesystem \<Rightarrow> json \<Rightarrow> exn + path_info" where
  "analyze_pics_path pe fs path =
     (if \<not> truthy path
      then Inr \<lparr>pi_exists = False, pi_is_pics_folder = False, pi_path = None,
                pi_suggested_path = None\<rparr>
      else (case path of
              JStr s \<Rightarrow>
                (let candidate = abspath pe (expanduser pe (strip s))
                 in if \<not> os_path_exists fs candidate
                    then Inr \<lparr>pi_exists = False, pi_is_pics_folder = False,
                              pi_path = Some candidate, pi_suggested_path = None\<rparr>
                    else if os_path_isdir fs candidate \<and> lower (basename candidate) = ''pics''
                    then Inr \<lparr>pi_exists = True, pi_is_pics_folder = True,
                              pi_path = Some candidate, pi_suggested_path = None\<rparr>
                    else (let pics_sub = os_path_join candidate ''pics''
                          in if os_path_isdir fs pics_sub
                             then Inr \<lparr>pi_exists = True, pi_is_pics_folder = False,
                                       pi_path = Some candidate,
                                       pi_suggested_path = Some (abspath pe pics_sub)\<rparr>
                             else Inr \<lparr>pi_exists = True, pi_is_pics_folder = False,
                                       pi_path = Some candidate, pi_suggested_path = None\<rparr>))
            | _ \<Rightarrow> Inl (AttributeError ''object has no attribute strip'')))"

subsection \<open>The coordinator\<close>

text \<open>What \<^verbatim>\<open>future.result()\<close> gives: the worker's result, its exception, or a cancelled future.\<close>

datatype future_outcome =
    Returned worker_result
  | Raised exn
  | FutureCancelled

text \<open>
  The environment of a run. The workers are indexed by the position of their task in
  the dispatched list; \<open>future_cancelled i\<close> holds when future \<open>i\<close> was cancelled before
  its worker started; \<open>cancel_seen i\<close> is the cancel flag as the coordinator reads it
  when it takes the \<open>i\<close>-th completed future, \<open>cancel_at_end\<close> as it reads it for the
  summary.
\<close>

record main_env =
  disk0 :: filesystem
  paths :: path_env
  clock_start :: int
  clock_end :: int
  save_config_failure :: "string option"
  api_response :: "exn + card list"
  workers :: "nat \<Rightarrow> worker_env"
  future_cancelled :: "nat \<Rightarrow> bool"
  cancel_seen :: "nat \<Rightarrow> bool"
  cancel_at_end :: bool
  report_outcome :: "string + report_paths"

text \<open>
  The workers of the pool, run one after the other in the order of submission, each on
  the disk the previous one left.
\<close>

fun run_futures ::
  "main_env \<Rightarrow> filesystem \<Rightarrow> nat \<Rightarrow> task list \<Rightarrow> string \<Rightarrow> bool \<Rightarrow> int \<Rightarrow> int \<Rightarrow> bool \<Rightarrow> int
   \<Rightarrow> future_outcome list \<times> filesystem"
where
  "run_futures env fs i [] picsdir force timeout retry validate_existing rate_limit_kbps = ([], fs)"
| "run_futures env fs i (t # ts) picsdir force timeout retry validate_existing rate_limit_kbps =
     (if future_cancelled env i
      then (case run_futures env fs (Suc i) ts picsdir force timeout retry validate_existing
                   rate_limit_kbps of
              (outs, fs') \<Rightarrow> (FutureCancelled # outs, fs'))
      else (let r = download_worker_task (workers env i) fs t picsdir force timeout retry
                      validate_existing rate_limit_kbps;
                out = (case outcome r of Inl e \<Rightarrow> Raised e | Inr res \<Rightarrow> Returned res)
            in case run_futures env (disk r) (Suc i) ts picsdir force timeout retry
                      validate_existing rate_limit_kbps of
                 (outs, fs') \<Rightarrow> (out # outs, fs')))"

text \<open>The body of the \<^verbatim>\<open>try\<close> inside the loop over the completed futures.\<close>

definition handle_future :: "download_state \<Rightarrow> future_outcome \<Rightarrow> download_state" where
  "handle_future st fut =
     (case fut of
        FutureCancelled \<Rightarrow> st
      | Raised e \<Rightarrow> add_log (increment st Errors_field) (MsgUnexpected (exn_str e)) LError
      | Returned res \<Rightarrow>
          (case res_status res of
             Success \<Rightarrow>
               (let st1 = increment st Processed_field
                in if processed st1 mod 50 = 0 \<or> processed st1 < 10
                   then add_log st1 (MsgDownloaded (processed st1) (total' st1)) LSuccess
                   else st1)
           | Skipped \<Rightarrow>
               (let st1 = increment st Skipped_field
                in if skipped st1 mod 100 = 0
                   then add_log st1 (MsgSkipped (skipped st1)) LInfo
                   else st1)
           | Error \<Rightarrow>
               (let st1 = increment st Errors_field;
                    t = res_task res;
                    error_msg = (case res_error res of None \<Rightarrow> ''Unknown error'' | Some m \<Rightarrow> m);
                    st2 = add_log st1 (MsgTaskError (name t) (image_id t) error_msg) LError
                in st2\<lparr>error_details := error_details st2 @
                          [\<lparr>detail_id = image_id t, detail_name = name t,
                            detail_url = url t, detail_error = error_msg\<rparr>]\<rparr>)
           | Cancelled \<Rightarrow> st))"

text \<open>\<^verbatim>\<open>for future in as_completed(futures)\<close>, from the \<open>i\<close>-th completed future on.\<close>

fun collect_loop ::
  "main_env \<Rightarrow> download_state \<Rightarrow> bool \<Rightarrow> nat \<Rightarrow> future_outcome list \<Rightarrow> download_state"
where
  "collect_loop env st cancel_requested i [] = st"
| "collect_loop env st cancel_requested i (fut # futs) =
     (let st0 = st\<lparr>cancel_flag := cancel_seen env i\<rparr>
      in if cancel_flag st0 \<and> \<not> cancel_requested
         then collect_loop env (handle_future (add_log st0 MsgCancelRequested LWarning) fut)
                True (Suc i) futs
         else collect_loop env (handle_future st0 fut) cancel_requested (Suc i) futs)"

text \<open>The summary, the report and the end of the run.\<close>

definition finish_run :: "main_env \<Rightarrow> download_state \<Rightarrow> string \<Rightarrow> download_state" where
  "finish_run env st picsdir =
     (let elapsed = clock_end env - (case start_time st of None \<Rightarrow> 0 | Some t0 \<Rightarrow> t0);
          st = add_log st MsgBlank LInfo;
          st = add_log st MsgRule LInfo;
          st = st\<lparr>cancel_flag := cancel_at_end env\<rparr>;
          st = (if cancel_flag st then add_log st MsgRunCancelled LWarning
                else add_log st MsgRunCompleted LSuccess);
          st = add_log st MsgRule LInfo;
          st = add_log st MsgFinalStatistics LInfo;
          st = add_log st (MsgStatTotal (total' st)) LInfo;
          st = add_log st (MsgStatDownloaded (processed st)) LSuccess;
          st = add_log st (MsgStatSkipped (skipped st)) LInfo;
          st = add_log st (MsgStatErrors (errors st)) (if errors st > 0 then LError else LInfo);
          st = add_log st (MsgStatTime elapsed) LInfo;
          st = (if processed st > 0 then add_log st (MsgStatSpeed (processed st) elapsed) LInfo else st);
          st = add_log st MsgBlank LInfo;
          st = add_log st (MsgSavedTo (abspath (paths env) picsdir)) LInfo;
          st = (if errors st > 0 then add_log st (MsgErrorsOccurred (errors st)) LWarning else st)
      in (case report_outcome env of
            Inl m \<Rightarrow> (add_log st (MsgReportError m) LError)\<lparr>running := False\<rparr>
          | Inr rep \<Rightarrow>
              (let st = add_log st (MsgReportJson (json_path rep)) LInfo;
                   st = add_log st (MsgReportMd (md_path rep)) LInfo
               in st\<lparr>report := Some rep, running := False\<rparr>)))"

text \<open>From the task list on: the count, the pool, the loop over the results, the summary.\<close>

definition dispatch ::
  "main_env \<Rightarrow> download_state \<Rightarrow> filesystem \<Rightarrow> run_config \<Rightarrow> string \<Rightarrow> task list
   \<Rightarrow> download_state \<times> filesystem"
where
  "dispatch env st fs cfg picsdir tasks =
     (let st = st\<lparr>total' := length tasks\<rparr>
      in if total' st = 0
         then ((add_log st MsgAllDownloaded LSuccess)\<lparr>running := False\<rparr>, fs)
         else (let st = add_log st (MsgPrepared (total' st)) LSuccess;
                   st = add_log st (MsgConfiguration (cfg_concurrency cfg) (cfg_retry cfg)
                                      (cfg_timeout cfg)) LInfo;
                   st = add_log st (MsgMode (truthy (cfg_force cfg))) LInfo;
                   st = (if cfg_rate_limit_kbps cfg \<noteq> 0
                         then add_log st (MsgRateLimit (cfg_rate_limit_kbps cfg)) LInfo else st);
                   st = (if cfg_validate_existing cfg then add_log st MsgValidateEnabled LInfo else st);
                   st = add_log st MsgBlank LInfo;
                   st = add_log st MsgStartingDownloads LInfo
               in case run_futures env fs 0 tasks picsdir (truthy (cfg_force cfg)) (cfg_timeout cfg)
                         (cfg_retry cfg) (cfg_validate_existing cfg) (cfg_rate_limit_kbps cfg) of
                    (futs, fs') \<Rightarrow> (finish_run env (collect_loop env st False 0 futs) picsdir, fs')))"

text \<open>\<^verbatim>\<open>except Exception as e\<close> and \<^verbatim>\<open>finally\<close> of \<^verbatim>\<open>download_worker_main\<close>.\<close>

definition fatal :: "download_state \<Rightarrow> exn \<Rightarrow> download_state" where
  "fatal st e = (add_log st (MsgFatal (exn_str e)) LError)\<lparr>running := False\<rparr>"

text \<open>From the resolved directory on: the catalog, the task list, the downloads.\<close>

definition fetch_and_dispatch ::
  "main_env \<Rightarrow> download_state \<Rightarrow> run_config \<Rightarrow> string \<Rightarrow> download_state \<times> filesystem"
where
  "fetch_and_dispatch env st cfg picsdir =
     (let fs = disk0 env;
          st = save_config st (save_config_failure env);
          st = add_log st (MsgOutputDir picsdir) LInfo;
          st = (if \<not> os_path_isdir fs (os_path_join picsdir ''field'')
                then add_log st MsgFieldMissing LWarning else st);
          st = add_log st MsgConnecting LInfo
      in case api_response env of
           Inl e \<Rightarrow>
             ((add_log (st\<lparr>api_error := Some (exn_str e)\<rparr>) (MsgApiError (exn_str e)) LError)
                \<lparr>running := False\<rparr>, fs)
         | Inr cards \<Rightarrow>
             if cards = []
             then ((add_log st MsgNoData LError)\<lparr>running := False\<rparr>, fs)
             else (let st = add_log st (MsgReceived (length cards)) LSuccess;
                       st = add_log st MsgPreparing LInfo
                   in case filter_cards cards (cfg_type_filter cfg) (cfg_set_filter cfg) of
                        Inl e \<Rightarrow> (fatal st e, fs)
                      | Inr filtered_cards \<Rightarrow>
                          (let tasks = build_download_tasks filtered_cards;
                               original_count = length tasks;
                               tasks = filter_tasks fs tasks picsdir (truthy (cfg_only_missing cfg))
                                         (cfg_validate_existing cfg);
                               filtered_out = original_count - length tasks;
                               st = (if filtered_out > 0
                                     then add_log st (MsgFiltered filtered_out) LInfo else st)
                           in dispatch env st fs cfg picsdir tasks)))"

definition download_worker_main ::
  "main_env \<Rightarrow> (string \<rightharpoonup> json) \<Rightarrow> download_state \<Rightarrow> download_state \<times> filesystem"
where
  "download_worker_main env params st =
     (let fs = disk0 env;
          st = st\<lparr>running := True, cancel_flag := False, start_time := Some (clock_start env)\<rparr>;
          st = add_log st MsgStarting LInfo
      in case read_params params of
           Inl e \<Rightarrow> (fatal st e, fs)
         | Inr cfg \<Rightarrow>
             (case analyze_pics_path (paths env) fs (cfg_picsdir cfg) of
                Inl e \<Rightarrow> (fatal st e, fs)
              | Inr info \<Rightarrow>
                  (let resolved =
                         (if truthy_str (pi_suggested_path info)
                          then (let suggested = the (pi_suggested_path info);
                                    st = add_log st (MsgUsingSuggested suggested) LInfo
                                in case analyze_pics_path (paths env) fs (JStr suggested) of
                                     Inl e \<Rightarrow> (st, Inl e)
                                   | Inr info' \<Rightarrow> (st, Inr (suggested, info')))
                          else if truthy_str (pi_path info)
                          then (st, Inr (the (pi_path info), info))
                          else (case cfg_picsdir cfg of
                                  JStr s \<Rightarrow> (st, Inr (abspath (paths env) (strip s), info))
                                | _ \<Rightarrow> (st, Inl (AttributeError ''object has no attribute strip''))))
                   in case resolved of
                        (st, Inl e) \<Rightarrow> (fatal st e, fs)
                      | (st, Inr (picsdir, info)) \<Rightarrow>
                          if \<not> pi_exists info \<or> \<not> pi_is_pics_folder info
                          then ((add_log st (MsgInvalidPics picsdir) LError)\<lparr>running := False\<rparr>, fs)
                          else if \<not> os_path_isdir fs picsdir
                          then ((add_log st (MsgNotAccessible picsdir) LError)\<lparr>running := False\<rparr>, fs)
                          else fetch_and_dispatch env st cfg picsdir)))"

subsection \<open>The start request of the control plane\<close>

datatype http_reply =
    Started_200
  | AlreadyRunning_409
  | InvalidJson_400

text \<open>
  \<^verbatim>\<open>POST /api/start\<close>: the body as \<^verbatim>\<open>json.loads\<close> read it (\<open>None\<close> when it is no JSON).
  The result is the reply, the state, and the parameters of the worker thread that
  was started, if one was.
\<close>

definition api_start ::
  "download_state \<Rightarrow> (string \<rightharpoonup> json) option \<Rightarrow> string option
   \<Rightarrow> http_reply \<times> download_state \<times> (string \<rightharpoonup> json) option"
where
  "api_start st body save_failure =
     (case body of
        None \<Rightarrow> (InvalidJson_400, st, None)
      | Some params \<Rightarrow>
          if running st then (AlreadyRunning_409, st, None)
          else (let st1 = reset st;
                    st2 = save_config st1 save_failure
                in (Started_200, st2, Some params)))"

subsection \<open>Concrete inputs\<close>

text \<open>A well-formed image of 1024 bytes, and a file cut off after four bytes.\<close>

definition jpeg_bytes :: "byte list" where
  "jpeg_bytes = [0xFF, 0xD8] @ replicate 1020 0 @ [0xFF, 0xD9]"

definition truncated_bytes :: "byte list" where
  "truncated_bytes = [0xFF, 0xD8, 0x4A, 0x46]"

text \<open>An output directory without a \<^verbatim>\<open>field\<close> folder, holding one broken and one sound image.\<close>

definition example_disk :: filesystem where
  "example_disk =
     \<lparr>nodes = [''/pics'' \<mapsto> Dir, ''/pics/5.jpg'' \<mapsto> File truncated_bytes,
               ''/pics/6.jpg'' \<mapsto> File jpeg_bytes],
      listing = [''/pics'' \<mapsto> [''5.jpg'', ''6.jpg'']],
      no_read = (\<lambda>p. False),
      no_write = (\<lambda>p. False),
      no_remove = (\<lambda>p. False),
      no_replace = (\<lambda>p q. False)\<rparr>"

definition example_task :: "int \<Rightarrow> task" where
  "example_task i = \<lparr>card_id = Some i, name = ''X'', image_id = Some i, url = ''u'', subfolder = []\<rparr>"

text \<open>The two entries of the scenarios: a Spell with one image, a Field Spell with a crop.\<close>

definition spell_card :: card where
  "spell_card =
     \<lparr>c_id = Some 1, c_name = Some ''X'', c_type = Some ''Spell Card'',
      card_images = Some [\<lparr>img_id = Some 1, image_url = Some ''u1'', image_url_cropped = None\<rparr>],
      card_sets = None\<rparr>"

definition field_spell_card :: card where
  "field_spell_card =
     \<lparr>c_id = Some 2, c_name = Some ''Y'', c_type = Some ''Field Spell Card'',
      card_images = Some [\<lparr>img_id = Some 2, image_url = Some ''u2'', image_url_cropped = Some ''c2''\<rparr>],
      card_sets = None\<rparr>"

text \<open>An entry whose first three images lack an identifier, have identifier 0, or lack a URL.\<close>

definition ragged_card :: card where
  "ragged_card =
     \<lparr>c_id = Some 9, c_name = None, c_type = Some ''Effect Monster'',
      card_images = Some [\<lparr>img_id = None, image_url = Some ''a'', image_url_cropped = None\<rparr>,
                          \<lparr>img_id = Some 0, image_url = Some ''b'', image_url_cropped = None\<rparr>,
                          \<lparr>img_id = Some 3, image_url = None, image_url_cropped = None\<rparr>,
                          \<lparr>img_id = Some 4, image_url = Some ''d'', image_url_cropped = None\<rparr>],
      card_sets = None\<rparr>"

text \<open>The number of tasks counted so far, in any of the three counters.\<close>

definition counted :: "download_state \<Rightarrow> nat" where
  "counted st = processed st + skipped st + errors st"

text \<open>The state after \<^verbatim>\<open>reset\<close>, and the state in the middle of a run.\<close>

definition idle_state :: download_state where
  "idle_state =
     \<lparr>running = False, total' = 0, processed = 0, skipped = 0, errors = 0, logs = [],
      cancel_flag = False, pause_flag = False, start_time = None, error_details = [],
      api_error = None, report = None\<rparr>"

definition busy_state :: download_state where
  "busy_state =
     \<lparr>running = True, total' = 10, processed = 3, skipped = 1, errors = 0,
      logs = [\<lparr>entry_type = LInfo, entry_message = MsgStarting\<rparr>],
      cancel_flag = False, pause_flag = True, start_time = Some 100, error_details = [],
      api_error = None, report = None\<rparr>"

text \<open>
  A server that answers every request with the status line \<^verbatim>\<open>503 Cancelled\<close>; the cancel
  flag is never set.
\<close>

definition refusing_server :: worker_env where
  "refusing_server =
     \<lparr>cancel_on_entry = False,
      network = (\<lambda>u n. Fetch (UrlopenRaises (HTTPError ''HTTP Error 503: Cancelled'')))\<rparr>"

text \<open>
  A run on \<open>example_disk\<close> whose catalog is the one Spell entry, with that server, no
  cancellation at any point, and a report that is written.
\<close>

definition example_env :: main_env where
  "example_env =
     \<lparr>disk0 = example_disk,
      paths = \<lparr>abspath = (\<lambda>p. p), expanduser = (\<lambda>p. p)\<rparr>,
      clock_start = 100,
      clock_end = 107,
      save_config_failure = None,
      api_response = Inr [spell_card],
      workers = (\<lambda>i. refusing_server),
      future_cancelled = (\<lambda>i. False),
      cancel_seen = (\<lambda>i. False),
      cancel_at_end = False,
      report_outcome = Inr \<lparr>json_path = ''report.json'', md_path = ''report.md''\<rparr>\<rparr>"

text \<open>The field-crop task of the Field Spell entry, and a worker that finds the cancel flag set.\<close>

definition field_task :: task where
  "field_task = \<lparr>card_id = Some 2, name = ''Y'', image_id = Some 2, url = ''c2'', subfolder = ''field''\<rparr>"

definition cancelled_worker :: worker_env where
  "cancelled_worker =
     \<lparr>cancel_on_entry = True,
      network = (\<lambda>u n. CancelledBeforeAttempt)\<rparr>"

text \<open>
  Three networks: one serves a sound image, one a body cut off after four bytes, and
  one is never reached because the cancel flag is set before each attempt.
\<close>

definition good_server :: "string \<Rightarrow> nat \<Rightarrow> attempt_script" where
  "good_server u n = Fetch (Response ''image/jpeg'' [Data jpeg_bytes])"

definition cut_off_server :: "string \<Rightarrow> nat \<Rightarrow> attempt_script" where
  "cut_off_server u n = Fetch (Response ''image/jpeg'' [Data truncated_bytes])"

definition cancelling_network :: "string \<Rightarrow> nat \<Rightarrow> attempt_script" where
  "cancelling_network u n = CancelledBeforeAttempt"

text \<open>
  A disk on which an earlier run left \<^verbatim>\<open>/pics/1.jpg.part\<close> behind, and the same disk when
  the operating system refuses to remove that file.
\<close>

definition stale_disk :: filesystem where
  "stale_disk = example_disk\<lparr>nodes := (nodes example_disk)(''/pics/1.jpg.part'' \<mapsto> File truncated_bytes)\<rparr>"

definition locked_disk :: filesystem where
  "locked_disk = stale_disk\<lparr>no_remove := (\<lambda>p. p = ''/pics/1.jpg.part'')\<rparr>"

text \<open>
  The output directory when it is read-only: no temporary file in it, and every opening
  for writing, removal and move in it refused.
\<close>

definition read_only_disk :: filesystem where
  "read_only_disk =
     example_disk\<lparr>no_write := (\<lambda>p. True), no_remove := (\<lambda>p. True), no_replace := (\<lambda>p q. True)\<rparr>"

section \<open>Verification\<close>

subsection \<open>Integrity validator\<close>

lemma open_rb_readable:
  "open_rb fs p =
     (case readable_bytes fs p of
        None \<Rightarrow> Inl (case nodes fs p of
                       Some (File bs) \<Rightarrow> eacces (py_repr p)
                     | Some Dir \<Rightarrow> eisdir (py_repr p)
                     | None \<Rightarrow> enoent (py_repr p))
      | Some bs \<Rightarrow> Inr \<lparr>content = bs, pos = 0\<rparr>)"
  by (simp add: open_rb_def readable_bytes_def split: option.splits node.splits)

lemma take_two_length: "take 2 bs = [a, b] \<Longrightarrow> 2 \<le> length bs"
  by (cases bs; cases "tl bs") auto

lemma verify_jpeg_bytes:
  "verify_jpeg fs p =
     (case readable_bytes fs p of None \<Rightarrow> False | Some bs \<Rightarrow> well_formed_jpeg bs)"
proof (cases "readable_bytes fs p")
  case None
  then show ?thesis by (simp add: verify_jpeg_def open_rb_readable)
next
  case (Some bs)
  show ?thesis
  proof (cases "take 2 bs = [0xFF, 0xD8]")
    case False
    then show ?thesis using Some
      by (simp add: verify_jpeg_def open_rb_readable f_read_def well_formed_jpeg_def)
  next
    case True
    then have len: "2 \<le> length bs" by (rule take_two_length)
    then have t: "take 2 (drop (length bs - 2) bs) = drop (length bs - 2) bs" by simp
    from len have n: "nat (int (length bs) - 2) = length bs - 2" by simp
    show ?thesis using Some True len t n
      by (simp add: verify_jpeg_def open_rb_readable f_read_def f_seek_def f_tell_def
            well_formed_jpeg_def Let_def)
  qed
qed

text \<open>
  C4. \<^verbatim>\<open>verify_jpeg\<close> returns true exactly when the file can be read, has at least 1024
  bytes, starts with the bytes FF D8 and ends with the bytes FF D9. A shorter file, a
  file without one of the markers and a file that cannot be read are all rejected.
\<close>

theorem verify_jpeg_iff_well_formed:
  "verify_jpeg fs p =
     (\<exists>bs. readable_bytes fs p = Some bs \<and> 1024 \<le> length bs \<and>
           take 2 bs = [0xFF, 0xD8] \<and> drop (length bs - 2) bs = [0xFF, 0xD9])"
  by (cases "readable_bytes fs p") (simp_all add: verify_jpeg_bytes well_formed_jpeg_def)

theorem verify_jpeg_witness:
  "verify_jpeg example_disk ''/pics/6.jpg'' \<and> \<not> verify_jpeg example_disk ''/pics/5.jpg''
   \<and> \<not> verify_jpeg example_disk ''/pics/7.jpg''"
proof -
  have a: "readable_bytes example_disk ''/pics/6.jpg'' = Some jpeg_bytes"
    by (simp add: readable_bytes_def example_disk_def)
  have b: "readable_bytes example_disk ''/pics/5.jpg'' = Some truncated_bytes"
    by (simp add: readable_bytes_def example_disk_def)
  have c: "readable_bytes example_disk ''/pics/7.jpg'' = None"
    by (simp add: readable_bytes_def example_disk_def)
  have j: "1024 \<le> length jpeg_bytes \<and> take 2 jpeg_bytes = [0xFF, 0xD8] \<and>
           drop (length jpeg_bytes - 2) jpeg_bytes = [0xFF, 0xD9]"
    by (simp add: jpeg_bytes_def)
  have t: "\<not> 1024 \<le> length truncated_bytes"
    by (simp add: truncated_bytes_def)
  show ?thesis
    using verify_jpeg_iff_well_formed [of example_disk "''/pics/6.jpg''"]
          verify_jpeg_iff_well_formed [of example_disk "''/pics/5.jpg''"]
          verify_jpeg_iff_well_formed [of example_disk "''/pics/7.jpg''"] a b c j t
    by simp
qed

subsection \<open>The task filter\<close>

lemma filter_tasks_loop_filter:
  "filter_tasks_loop fs pd om ve eb ef ts acc =
     acc @ filter (\<lambda>t. \<not> (lower (py_str (image_id t) @ ''.jpg'') \<in>
                             (if subfolder t = ''field'' then ef else eb)
                          \<and> (if ve then verify_jpeg fs (task_outpath pd t) else om))) ts"
proof (induction ts arbitrary: acc)
  case Nil
  then show ?case by simp
next
  case (Cons t ts)
  show ?case
    unfolding filter_tasks_loop.simps Let_def Cons.IH
    by (cases ve; cases om) simp_all
qed

lemma filter_tasks_filter:
  "om \<or> ve \<Longrightarrow>
   filter_tasks fs ts pd om ve =
     filter (\<lambda>t. \<not> (target_listed fs pd t \<and> (\<not> ve \<or> verify_jpeg fs (task_outpath pd t)))) ts"
  unfolding filter_tasks_def Let_def filter_tasks_loop_filter target_listed_def
  by (auto intro!: filter_cong)

text \<open>
  C3. With \<^verbatim>\<open>only_missing\<close> or \<^verbatim>\<open>validate_existing\<close> set, \<^verbatim>\<open>filter_tasks\<close> drops a task
  exactly when its target file name is in the scanned listing and either no validation
  was asked for or the existing file passes \<^verbatim>\<open>verify_jpeg\<close>; the other tasks stay, in
  their order. In particular a task whose existing file fails the validation that was
  asked for is kept, whatever \<^verbatim>\<open>only_missing\<close> says.
\<close>

theorem filter_tasks_drops_exactly:
  assumes "only_missing \<or> validate_existing"
  shows "filter_tasks fs tasks picsdir only_missing validate_existing =
           filter (\<lambda>t. \<not> (target_listed fs picsdir t \<and>
                            (\<not> validate_existing \<or> verify_jpeg fs (task_outpath picsdir t)))) tasks
         \<and> (\<forall>t \<in> set tasks. validate_existing \<and> \<not> verify_jpeg fs (task_outpath picsdir t)
               \<longrightarrow> t \<in> set (filter_tasks fs tasks picsdir only_missing validate_existing))"
  using assms filter_tasks_filter [of only_missing validate_existing fs tasks picsdir]
  by auto

theorem filter_tasks_witness:
  "(True \<or> True) \<and>
   filter_tasks example_disk [example_task 5, example_task 6, example_task 7] ''/pics'' True True =
     [example_task 5, example_task 7] \<and>
   filter_tasks example_disk [example_task 5, example_task 6, example_task 7] ''/pics'' True False =
     [example_task 7]"
proof -
  have a: "filter (\<lambda>t. \<not> (target_listed example_disk ''/pics'' t \<and>
                   (\<not> True \<or> verify_jpeg example_disk (task_outpath ''/pics'' t))))
             [example_task 5, example_task 6, example_task 7] = [example_task 5, example_task 7]"
    by code_simp
  have b: "filter (\<lambda>t. \<not> (target_listed example_disk ''/pics'' t \<and>
                   (\<not> False \<or> verify_jpeg example_disk (task_outpath ''/pics'' t))))
             [example_task 5, example_task 6, example_task 7] = [example_task 7]"
    by code_simp
  show ?thesis
    using filter_tasks_drops_exactly [of True True example_disk
            "[example_task 5, example_task 6, example_task 7]" "''/pics''"]
          filter_tasks_drops_exactly [of True False example_disk
            "[example_task 5, example_task 6, example_task 7]" "''/pics''"]
          a b
    by simp
qed

text \<open>
  C8. \<^verbatim>\<open>filter_tasks\<close> is idempotent: on the same directory state and with the same
  flags, filtering its own output changes nothing.
\<close>

theorem filter_tasks_idempotent:
  "filter_tasks fs (filter_tasks fs tasks picsdir only_missing validate_existing) picsdir
     only_missing validate_existing =
   filter_tasks fs tasks picsdir only_missing validate_existing"
proof (cases "only_missing \<or> validate_existing")
  case True
  then show ?thesis by (simp add: filter_tasks_filter)
next
  case False
  then show ?thesis by (simp add: filter_tasks_def)
qed

theorem filter_tasks_idempotent_witness:
  "filter_tasks example_disk [example_task 5, example_task 7] ''/pics'' True True =
     [example_task 5, example_task 7]"
proof -
  have "filter_tasks example_disk [example_task 5, example_task 6, example_task 7] ''/pics'' True True =
          [example_task 5, example_task 7]"
    by code_simp
  then show ?thesis
    using filter_tasks_idempotent [of example_disk
            "[example_task 5, example_task 6, example_task 7]" "''/pics''" True True]
    by simp
qed

subsection \<open>The task builder\<close>

lemma has_id_and_url_truthy:
  "has_id_and_url img = (truthy_int (img_id img) \<and> truthy_str (image_url img))"
  by (auto simp: has_id_and_url_def truthy_int_def truthy_str_def split: option.splits)

lemma images_loop_append:
  "images_loop cid nm imgs tasks =
     tasks @ map (\<lambda>img. \<lparr>card_id = cid, name = nm, image_id = img_id img,
                          url = the (image_url img), subfolder = []\<rparr>)
               (filter has_id_and_url imgs)"
proof (induction imgs arbitrary: tasks)
  case Nil
  then show ?case by simp
next
  case (Cons img imgs)
  show ?case
    unfolding images_loop.simps Let_def Cons.IH has_id_and_url_truthy [symmetric]
    by simp
qed

lemma images_loop_standard:
  "images_loop (c_id c) (entry_name c) (entry_images c) tasks = tasks @ standard_tasks c"
  unfolding images_loop_append standard_tasks_def
  by (simp add: standard_task_def [abs_def])

lemma cards_loop_step:
  "cards_loop (c # cs) tasks = cards_loop cs (tasks @ standard_tasks c @ field_crop_tasks c)"
proof -
  have n: "(case c_name c of None \<Rightarrow> ''Unknown'' | Some n \<Rightarrow> n) = entry_name c"
    by (simp add: entry_name_def)
  have i: "(case card_images c of None \<Rightarrow> [] | Some imgs \<Rightarrow> imgs) = entry_images c"
    by (simp add: entry_images_def)
  have f: "(str_in ''Field'' (case c_type c of None \<Rightarrow> [] | Some t \<Rightarrow> t) \<and>
            str_in ''Spell'' (case c_type c of None \<Rightarrow> [] | Some t \<Rightarrow> t)) = is_field_spell c"
    by (simp add: is_field_spell_def split: option.splits)
  have "cards_loop (c # cs) tasks =
        cards_loop cs
          (if is_field_spell c
           then (case entry_images c of
                   [] \<Rightarrow> tasks @ standard_tasks c
                 | first_img # rest \<Rightarrow>
                     if truthy_image first_img
                     then (if truthy_str (image_url_cropped first_img)
                           then (tasks @ standard_tasks c) @
                                [\<lparr>card_id = c_id c, name = entry_name c, image_id = c_id c,
                                  url = the (image_url_cropped first_img), subfolder = ''field''\<rparr>]
                           else tasks @ standard_tasks c)
                     else tasks @ standard_tasks c)
           else tasks @ standard_tasks c)"
    unfolding cards_loop.simps Let_def n i f images_loop_standard ..
  also have "\<dots> = cards_loop cs (tasks @ standard_tasks c @ field_crop_tasks c)"
    by (auto simp: field_crop_tasks_def truthy_image_def truthy_str_def
             split: list.splits option.splits)
  finally show ?thesis .
qed

lemma cards_loop_concat:
  "cards_loop cs tasks = tasks @ concat (map (\<lambda>c. standard_tasks c @ field_crop_tasks c) cs)"
proof (induction cs arbitrary: tasks)
  case Nil
  then show ?case by simp
next
  case (Cons c cs)
  show ?case unfolding cards_loop_step Cons.IH by simp
qed

lemma build_download_tasks_concat:
  "build_download_tasks cards = concat (map (\<lambda>c. standard_tasks c @ field_crop_tasks c) cards)"
  by (simp add: build_download_tasks_def cards_loop_concat)

lemma standard_tasks_subfolder: "t \<in> set (standard_tasks c) \<Longrightarrow> subfolder t = []"
  by (auto simp: standard_tasks_def standard_task_def)

lemma field_crop_tasks_subfolder: "t \<in> set (field_crop_tasks c) \<Longrightarrow> subfolder t = ''field''"
  unfolding field_crop_tasks_def
  by (cases "is_field_spell c"; cases "entry_images c"; cases "image_url_cropped (hd (entry_images c))")
     (auto split: if_splits)

lemma build_download_tasks_append:
  "build_download_tasks (xs @ ys) = build_download_tasks xs @ build_download_tasks ys"
  by (simp add: build_download_tasks_concat)

lemma build_download_tasks_single:
  "build_download_tasks [c] = standard_tasks c @ field_crop_tasks c"
  by (simp add: build_download_tasks_concat)

text \<open>
  C5. For an entry whose type contains both \<^verbatim>\<open>Field\<close> and \<^verbatim>\<open>Spell\<close>, wherever it stands
  in the catalog, \<^verbatim>\<open>build_download_tasks\<close> emits the tasks of the entries before it, then
  its standard-art tasks, then exactly one more task when its first image exists and
  has a cropped URL (none otherwise), then the tasks of the entries after it. The extra
  task has that cropped URL, the sub-folder \<^verbatim>\<open>field\<close> and the entry's own identifier as
  its image identifier. Nothing is reordered and nothing is removed as a duplicate.
\<close>

theorem field_spell_crop_task:
  assumes "c_type c = Some ty" and "str_in ''Field'' ty" and "str_in ''Spell'' ty"
  shows "build_download_tasks (before @ c # after) =
           build_download_tasks before @
           standard_tasks c @
           (case entry_images c of
              [] \<Rightarrow> []
            | img # rest \<Rightarrow>
                (case image_url_cropped img of
                   None \<Rightarrow> []
                 | Some u \<Rightarrow>
                     if u = [] then []
                     else [\<lparr>card_id = c_id c, name = entry_name c, image_id = c_id c,
                            url = u, subfolder = ''field''\<rparr>])) @
           build_download_tasks after"
proof -
  have "is_field_spell c" using assms by (simp add: is_field_spell_def)
  then have "field_crop_tasks c =
           (case entry_images c of
              [] \<Rightarrow> []
            | img # rest \<Rightarrow>
                (case image_url_cropped img of
                   None \<Rightarrow> []
                 | Some u \<Rightarrow>
                     if u = [] then []
                     else [\<lparr>card_id = c_id c, name = entry_name c, image_id = c_id c,
                            url = u, subfolder = ''field''\<rparr>]))"
    by (simp add: field_crop_tasks_def)
  moreover have "build_download_tasks (before @ c # after) =
      build_download_tasks before @ (standard_tasks c @ field_crop_tasks c) @ build_download_tasks after"
    using build_download_tasks_append [of before "c # after"]
          build_download_tasks_append [of "[c]" after] build_download_tasks_single [of c]
    by simp
  ultimately show ?thesis by simp
qed

theorem field_spell_crop_task_witness:
  "c_type field_spell_card = Some ''Field Spell Card'' \<and> str_in ''Field'' ''Field Spell Card'' \<and>
   str_in ''Spell'' ''Field Spell Card'' \<and>
   build_download_tasks ([spell_card] @ field_spell_card # [field_spell_card]) =
     [\<lparr>card_id = Some 1, name = ''X'', image_id = Some 1, url = ''u1'', subfolder = []\<rparr>,
      \<lparr>card_id = Some 2, name = ''Y'', image_id = Some 2, url = ''u2'', subfolder = []\<rparr>,
      \<lparr>card_id = Some 2, name = ''Y'', image_id = Some 2, url = ''c2'', subfolder = ''field''\<rparr>,
      \<lparr>card_id = Some 2, name = ''Y'', image_id = Some 2, url = ''u2'', subfolder = []\<rparr>,
      \<lparr>card_id = Some 2, name = ''Y'', image_id = Some 2, url = ''c2'', subfolder = ''field''\<rparr>]"
proof -
  have a: "c_type field_spell_card = Some ''Field Spell Card''" by (simp add: field_spell_card_def)
  have b: "str_in ''Field'' ''Field Spell Card''" by simp
  have c: "str_in ''Spell'' ''Field Spell Card''" by simp
  have s1: "build_download_tasks [spell_card] =
      [\<lparr>card_id = Some 1, name = ''X'', image_id = Some 1, url = ''u1'', subfolder = []\<rparr>]"
    by code_simp
  have s2: "build_download_tasks [field_spell_card] =
     [\<lparr>card_id = Some 2, name = ''Y'', image_id = Some 2, url = ''u2'', subfolder = []\<rparr>,
      \<lparr>card_id = Some 2, name = ''Y'', image_id = Some 2, url = ''c2'', subfolder = ''field''\<rparr>]"
    by code_simp
  have s3: "standard_tasks field_spell_card =
     [\<lparr>card_id = Some 2, name = ''Y'', image_id = Some 2, url = ''u2'', subfolder = []\<rparr>]"
    by (simp add: standard_tasks_def standard_task_def field_spell_card_def entry_images_def
          entry_name_def has_id_and_url_def)
  have s4: "entry_images field_spell_card =
      [\<lparr>img_id = Some 2, image_url = Some ''u2'', image_url_cropped = Some ''c2''\<rparr>]"
    by (simp add: entry_images_def field_spell_card_def)
  have s5: "c_id field_spell_card = Some 2" "entry_name field_spell_card = ''Y''"
    by (simp_all add: field_spell_card_def entry_name_def)
  show ?thesis
    using field_spell_crop_task [OF a b c, of "[spell_card]" "[field_spell_card]"] a b c
    unfolding s1 s2 s3 s4 s5
    by simp
qed

text \<open>
  C9. The standard-art tasks that \<^verbatim>\<open>build_download_tasks\<close> emits are, entry by entry and
  in order, those of the images that have a non-zero identifier and a non-empty URL.
  There are at most as many as there are images, and an image without identifier,
  with identifier 0 or without URL leaves the task list as it was: no task, no error.
\<close>

theorem standard_task_needs_id_and_url:
  "filter (\<lambda>t. subfolder t = []) (build_download_tasks cards) =
     concat (map (\<lambda>c. map (standard_task c)
                        (filter (\<lambda>img. (\<exists>n. img_id img = Some n \<and> n \<noteq> 0) \<and>
                                        (\<exists>u. image_url img = Some u \<and> u \<noteq> []))
                           (entry_images c))) cards)
   \<and> length (filter (\<lambda>t. subfolder t = []) (build_download_tasks cards))
       \<le> length (concat (map entry_images cards))
   \<and> (img_id img = None \<or> img_id img = Some 0 \<or> image_url img = None
        \<longrightarrow> images_loop cid nm (img # imgs) tasks = images_loop cid nm imgs tasks)"
proof -
  have std_keep: "filter (\<lambda>t. subfolder t = []) (standard_tasks c) = standard_tasks c" for c
    by (rule filter_True) (simp add: standard_tasks_subfolder)
  have crop_drop: "filter (\<lambda>t. subfolder t = []) (field_crop_tasks c) = []" for c
    by (rule filter_False) (auto dest: field_crop_tasks_subfolder)
  have eq: "filter (\<lambda>t. subfolder t = []) (build_download_tasks cards) = concat (map standard_tasks cards)"
    unfolding build_download_tasks_concat
    by (induction cards) (simp_all add: std_keep crop_drop)
  have len: "length (concat (map standard_tasks cards)) \<le> length (concat (map entry_images cards))"
    by (induction cards) (simp_all add: standard_tasks_def add_mono)
  have skip: "img_id img = None \<or> img_id img = Some 0 \<or> image_url img = None
        \<longrightarrow> images_loop cid nm (img # imgs) tasks = images_loop cid nm imgs tasks"
    by (auto simp: truthy_int_def truthy_str_def)
  have std: "standard_tasks = (\<lambda>c. map (standard_task c)
                        (filter (\<lambda>img. (\<exists>n. img_id img = Some n \<and> n \<noteq> 0) \<and>
                                        (\<exists>u. image_url img = Some u \<and> u \<noteq> []))
                           (entry_images c)))"
    by (rule ext) (simp add: standard_tasks_def has_id_and_url_def [abs_def])
  show ?thesis using eq len skip unfolding std by simp
qed

theorem standard_task_needs_id_and_url_witness:
  "filter (\<lambda>t. subfolder t = []) (build_download_tasks [ragged_card]) =
     [\<lparr>card_id = Some 9, name = ''Unknown'', image_id = Some 4, url = ''d'', subfolder = []\<rparr>]
   \<and> length (entry_images ragged_card) = 4"
proof -
  have "concat (map (\<lambda>c. map (standard_task c)
                        (filter (\<lambda>img. (\<exists>n. img_id img = Some n \<and> n \<noteq> 0) \<and>
                                        (\<exists>u. image_url img = Some u \<and> u \<noteq> []))
                           (entry_images c))) [ragged_card]) =
     [\<lparr>card_id = Some 9, name = ''Unknown'', image_id = Some 4, url = ''d'', subfolder = []\<rparr>]"
    by (simp add: ragged_card_def entry_images_def standard_task_def entry_name_def)
  moreover have "length (entry_images ragged_card) = 4"
    by (simp add: ragged_card_def entry_images_def)
  ultimately show ?thesis
    using standard_task_needs_id_and_url [of "[ragged_card]"]
    by simp
qed

subsection \<open>The configuration\<close>

lemma int_or_default_finite:
  "v \<noteq> JFloat PosInf \<Longrightarrow> v \<noteq> JFloat NegInf \<Longrightarrow> \<exists>n. int_or_default v d = Inr n"
proof (cases v)
  case (JFloat f)
  assume "v \<noteq> JFloat PosInf" "v \<noteq> JFloat NegInf"
  with JFloat show ?thesis by (cases f) (simp_all add: int_or_default_def)
next
  case (JStr s)
  then show ?thesis by (cases "int_of_str s") (simp_all add: int_or_default_def)
qed (simp_all add: int_or_default_def)

lemma int_or_default_fallback:
  "int_or_default v d = Inr n \<Longrightarrow> py_int v = Inl e \<Longrightarrow> n = d"
  by (cases e) (simp_all add: int_or_default_def)

lemma dict_get_finite:
  "params k \<noteq> Some (JFloat PosInf) \<Longrightarrow> params k \<noteq> Some (JFloat NegInf) \<Longrightarrow>
   dflt \<noteq> JFloat PosInf \<Longrightarrow> dflt \<noteq> JFloat NegInf \<Longrightarrow>
   dict_get params k dflt \<noteq> JFloat PosInf \<and> dict_get params k dflt \<noteq> JFloat NegInf"
  by (cases "params k") (simp_all add: dict_get_def)

lemma read_params_clamped:
  assumes "\<forall>k \<in> {''concurrency'', ''timeout'', ''retry'', ''maxKbps''}.
             params k \<noteq> Some (JFloat PosInf) \<and> params k \<noteq> Some (JFloat NegInf)"
  shows "\<exists>cfg. read_params params = Inr cfg \<and>
           1 \<le> cfg_concurrency cfg \<and> cfg_concurrency cfg \<le> 50 \<and>
           10 \<le> cfg_timeout cfg \<and> cfg_timeout cfg \<le> 120 \<and>
           1 \<le> cfg_retry cfg \<and> cfg_retry cfg \<le> 10 \<and>
           0 \<le> cfg_rate_limit_kbps cfg"
proof -
  obtain c where c: "int_or_default (dict_get params ''concurrency'' (JInt 12)) 12 = Inr c"
    using assms int_or_default_finite dict_get_finite [of params "''concurrency''" "JInt 12"] by fastforce
  obtain t where t: "int_or_default (dict_get params ''timeout'' (JInt 30)) 30 = Inr t"
    using assms int_or_default_finite dict_get_finite [of params "''timeout''" "JInt 30"] by fastforce
  obtain r where r: "int_or_default (dict_get params ''retry'' (JInt 3)) 3 = Inr r"
    using assms int_or_default_finite dict_get_finite [of params "''retry''" "JInt 3"] by fastforce
  obtain k where k: "int_or_default (dict_get params ''maxKbps'' (JInt 0)) 0 = Inr k"
    using assms int_or_default_finite dict_get_finite [of params "''maxKbps''" "JInt 0"] by fastforce
  show ?thesis
    by (simp add: read_params_def Let_def c t r k)
qed

lemma read_params_defaults:
  assumes "read_params params = Inr cfg"
  shows "(params ''concurrency'' = None \<or> (\<exists>v e. params ''concurrency'' = Some v \<and> py_int v = Inl e)
            \<longrightarrow> cfg_concurrency cfg = 12) \<and>
         (params ''timeout'' = None \<or> (\<exists>v e. params ''timeout'' = Some v \<and> py_int v = Inl e)
            \<longrightarrow> cfg_timeout cfg = 30) \<and>
         (params ''retry'' = None \<or> (\<exists>v e. params ''retry'' = Some v \<and> py_int v = Inl e)
            \<longrightarrow> cfg_retry cfg = 3) \<and>
         (params ''maxKbps'' = None \<or> (\<exists>v e. params ''maxKbps'' = Some v \<and> py_int v = Inl e)
            \<longrightarrow> cfg_rate_limit_kbps cfg = 0)"
proof -
  from assms obtain c t r k where
    c: "int_or_default (dict_get params ''concurrency'' (JInt 12)) 12 = Inr c" and
    t: "int_or_default (dict_get params ''timeout'' (JInt 30)) 30 = Inr t" and
    r: "int_or_default (dict_get params ''retry'' (JInt 3)) 3 = Inr r" and
    k: "int_or_default (dict_get params ''maxKbps'' (JInt 0)) 0 = Inr k" and
    cfg: "cfg_concurrency cfg = max 1 (min 50 c)" "cfg_timeout cfg = max 10 (min 120 t)"
         "cfg_retry cfg = max 1 (min 10 r)" "cfg_rate_limit_kbps cfg = (if k < 0 then 0 else k)"
    by (auto simp: read_params_def Let_def split: sum.splits)
  have d: "params key = None \<or> (\<exists>v e. params key = Some v \<and> py_int v = Inl e) \<Longrightarrow>
           int_or_default (dict_get params key (JInt dflt)) dflt = Inr n \<Longrightarrow> n = dflt" for key dflt n
  proof -
    assume a: "params key = None \<or> (\<exists>v e. params key = Some v \<and> py_int v = Inl e)"
       and b: "int_or_default (dict_get params key (JInt dflt)) dflt = Inr n"
    show "n = dflt"
    proof (cases "params key")
      case None
      with b show ?thesis by (simp add: dict_get_def int_or_default_def)
    next
      case (Some v)
      with a obtain e where "py_int v = Inl e" by auto
      moreover from b Some have "int_or_default v dflt = Inr n" by (simp add: dict_get_def)
      ultimately show ?thesis by (rule int_or_default_fallback [rotated])
    qed
  qed
  show ?thesis using d [OF _ c] d [OF _ t] d [OF _ r] d [OF _ k] cfg by auto
qed


text \<open>
  C6. The coordinator clamps the concurrency to 1..50, the timeout to 10..120 and the
  retry count to 1..10, takes 12, 30 and 3 for a value that is missing or that \<^verbatim>\<open>int\<close>
  rejects, and turns a negative or non-numeric rate limit into 0. The code does so
  for every value but an infinite float (\<open>read_params_clamped\<close>, \<open>read_params_defaults\<close>):
  for the JSON number \<^verbatim>\<open>1e999\<close> the conversion raises \<^verbatim>\<open>OverflowError\<close>, which the handler
  for \<^verbatim>\<open>ValueError\<close> and \<^verbatim>\<open>TypeError\<close> lets through, and the run ends with a fatal error
  before anything is clamped.
\<close>

theorem infinite_concurrency_aborts_run:
  "read_params [''picsdir'' \<mapsto> JStr ''/pics'', ''concurrency'' \<mapsto> JFloat PosInf] =
     Inl (OverflowError ''cannot convert float infinity to integer'') \<and>
   (let st = fst (download_worker_main example_env
                    [''picsdir'' \<mapsto> JStr ''/pics'', ''concurrency'' \<mapsto> JFloat PosInf] idle_state)
    in logs st = [\<lparr>entry_type = LInfo, entry_message = MsgStarting\<rparr>,
                  \<lparr>entry_type = LError,
                   entry_message = MsgFatal ''cannot convert float infinity to integer''\<rparr>] \<and>
       total' st = 0 \<and> \<not> running st)"
  by code_simp

theorem infinite_concurrency_aborts_run_witness:
  "\<not> (\<exists>cfg. read_params [''picsdir'' \<mapsto> JStr ''/pics'', ''concurrency'' \<mapsto> JFloat PosInf] = Inr cfg)"
  using infinite_concurrency_aborts_run by simp

subsection \<open>The start request\<close>

text \<open>
  C7. A start request that arrives while a run is active is answered with the
  already-running error, leaves every field of the state as it was and starts no
  worker; whatever its body, the state stays and no worker starts.
\<close>

theorem start_while_running_rejected:
  assumes "running st"
  shows "api_start st (Some params) save_failure = (AlreadyRunning_409, st, None)
         \<and> snd (api_start st body save_failure) = (st, None)"
  using assms by (cases body) (simp_all add: api_start_def)

theorem start_while_running_rejected_witness:
  "running busy_state \<and>
   api_start busy_state (Some [''picsdir'' \<mapsto> JStr ''/pics'']) None =
     (AlreadyRunning_409, busy_state, None)"
proof -
  have r: "running busy_state" by (simp add: busy_state_def)
  show ?thesis using start_while_running_rejected [OF r] r by simp
qed

subsection \<open>The counters of a run\<close>

lemma add_log_counted [simp]:
  "counted (add_log st m ty) = counted st" "total' (add_log st m ty) = total' st"
  "processed (add_log st m ty) = processed st" "skipped (add_log st m ty) = skipped st"
  "errors (add_log st m ty) = errors st" "start_time (add_log st m ty) = start_time st"
  "cancel_flag (add_log st m ty) = cancel_flag st"
  by (simp_all add: add_log_def counted_def Let_def)

lemma handle_future_counted:
  "counted (handle_future st fut) \<le> counted st + 1 \<and> total' (handle_future st fut) = total' st"
proof (cases fut)
  case (Returned res)
  then show ?thesis
    by (cases "res_status res") (simp_all add: handle_future_def Let_def, simp_all add: counted_def)
next
  case (Raised e)
  then show ?thesis by (simp add: handle_future_def) (simp add: counted_def)
next
  case FutureCancelled
  then show ?thesis by (simp add: handle_future_def)
qed

lemma handle_future_counted_one:
  assumes "fut \<noteq> FutureCancelled" and "\<forall>res. fut = Returned res \<longrightarrow> res_status res \<noteq> Cancelled"
  shows "counted (handle_future st fut) = counted st + 1"
proof (cases fut)
  case (Returned res)
  with assms have "res_status res \<noteq> Cancelled" by simp
  with Returned show ?thesis
    by (cases "res_status res") (simp_all add: handle_future_def Let_def, simp_all add: counted_def)
next
  case (Raised e)
  then show ?thesis by (simp add: handle_future_def) (simp add: counted_def)
next
  case FutureCancelled
  with assms show ?thesis by simp
qed

lemma collect_loop_step:
  obtains st0 cr1 where
    "collect_loop env st cr i (fut # futs) = collect_loop env (handle_future st0 fut) cr1 (Suc i) futs"
    and "counted st0 = counted st" and "total' st0 = total' st"
proof (cases "cancel_seen env i \<and> \<not> cr")
  case True
  show ?thesis
  proof (rule that)
    show "collect_loop env st cr i (fut # futs) =
          collect_loop env (handle_future (add_log (st\<lparr>cancel_flag := cancel_seen env i\<rparr>)
                                             MsgCancelRequested LWarning) fut) True (Suc i) futs"
      using True by (simp add: Let_def)
    show "counted (add_log (st\<lparr>cancel_flag := cancel_seen env i\<rparr>) MsgCancelRequested LWarning) = counted st"
      by (simp add: counted_def)
    show "total' (add_log (st\<lparr>cancel_flag := cancel_seen env i\<rparr>) MsgCancelRequested LWarning) = total' st"
      by simp
  qed
next
  case False
  show ?thesis
  proof (rule that)
    show "collect_loop env st cr i (fut # futs) =
          collect_loop env (handle_future (st\<lparr>cancel_flag := cancel_seen env i\<rparr>) fut) cr (Suc i) futs"
      using False by (auto simp: Let_def)
    show "counted (st\<lparr>cancel_flag := cancel_seen env i\<rparr>) = counted st"
      by (simp add: counted_def)
    show "total' (st\<lparr>cancel_flag := cancel_seen env i\<rparr>) = total' st"
      by simp
  qed
qed

lemma collect_loop_counted:
  "counted (collect_loop env st cr i futs) \<le> counted st + length futs \<and>
   total' (collect_loop env st cr i futs) = total' st"
proof (induction futs arbitrary: st cr i)
  case Nil
  then show ?case by simp
next
  case (Cons fut futs)
  obtain st0 cr1 where
    step: "collect_loop env st cr i (fut # futs) = collect_loop env (handle_future st0 fut) cr1 (Suc i) futs"
    and c: "counted st0 = counted st" and t: "total' st0 = total' st"
    by (rule collect_loop_step)
  show ?case
    using Cons.IH [of "handle_future st0 fut" cr1 "Suc i"] handle_future_counted [of st0 fut] c t
    unfolding step by simp
qed

lemma collect_loop_counted_all:
  assumes "\<forall>fut \<in> set futs. fut \<noteq> FutureCancelled \<and> (\<forall>res. fut = Returned res \<longrightarrow> res_status res \<noteq> Cancelled)"
  shows "counted (collect_loop env st cr i futs) = counted st + length futs"
  using assms
proof (induction futs arbitrary: st cr i)
  case Nil
  then show ?case by simp
next
  case (Cons fut futs)
  then have f: "fut \<noteq> FutureCancelled" "\<forall>res. fut = Returned res \<longrightarrow> res_status res \<noteq> Cancelled"
    and rest: "\<forall>fut \<in> set futs. fut \<noteq> FutureCancelled \<and> (\<forall>res. fut = Returned res \<longrightarrow> res_status res \<noteq> Cancelled)"
    by simp_all
  obtain st0 cr1 where
    step: "collect_loop env st cr i (fut # futs) = collect_loop env (handle_future st0 fut) cr1 (Suc i) futs"
    and c: "counted st0 = counted st"
    by (rule collect_loop_step)
  show ?case
    using Cons.IH [OF rest, of "handle_future st0 fut" cr1 "Suc i"] handle_future_counted_one [OF f, of st0] c
    unfolding step by simp
qed

lemma run_futures_length:
  "length (fst (run_futures env fs i ts pd force tmo retry ve rate)) = length ts"
proof (induction ts arbitrary: fs i)
  case Nil
  then show ?case by simp
next
  case (Cons t ts)
  show ?case
  proof (cases "future_cancelled env i")
    case True
    then show ?thesis using Cons.IH [of fs "Suc i"]
      by (simp add: split_beta)
  next
    case False
    then show ?thesis
      using Cons.IH [of "disk (download_worker_task (workers env i) fs t pd force tmo retry ve rate)" "Suc i"]
      by (simp add: Let_def split_beta)
  qed
qed

lemma finish_run_counted:
  "counted (finish_run env st pd) = counted st \<and> total' (finish_run env st pd) = total' st"
  by (cases "report_outcome env") (simp_all add: finish_run_def Let_def, simp_all add: counted_def)


lemma counted_updates [simp]:
  "counted (st\<lparr>running := b\<rparr>) = counted st"
  "counted (st\<lparr>cancel_flag := b\<rparr>) = counted st"
  "counted (st\<lparr>start_time := t\<rparr>) = counted st"
  "counted (st\<lparr>api_error := a\<rparr>) = counted st"
  "counted (st\<lparr>report := r\<rparr>) = counted st"
  "counted (st\<lparr>total' := n\<rparr>) = counted st"
  by (simp_all add: counted_def)

lemma fatal_counted [simp]:
  "counted (fatal st e) = counted st" "total' (fatal st e) = total' st"
  by (simp_all add: fatal_def)

lemma save_config_counted [simp]:
  "counted (save_config st f) = counted st" "total' (save_config st f) = total' st"
  by (cases f; simp add: save_config_def)+

lemma dispatch_counted:
  assumes "counted st = 0"
  shows "counted (fst (dispatch env st fs cfg pd tasks)) \<le> total' (fst (dispatch env st fs cfg pd tasks))"
proof (cases "tasks = []")
  case True
  then show ?thesis using assms by (simp add: dispatch_def Let_def)
next
  case False
  define st1 where "st1 = add_log (let st = add_log (let st = (let st = add_log (add_log (add_log (st\<lparr>total' := length tasks\<rparr>) (MsgPrepared (length tasks)) LSuccess)
                 (MsgConfiguration (cfg_concurrency cfg) (cfg_retry cfg) (cfg_timeout cfg)) LInfo)
                 (MsgMode (truthy (cfg_force cfg))) LInfo in
                 if cfg_rate_limit_kbps cfg \<noteq> 0 then add_log st (MsgRateLimit (cfg_rate_limit_kbps cfg)) LInfo else st)
               in if cfg_validate_existing cfg then add_log st MsgValidateEnabled LInfo else st) MsgBlank LInfo in st) MsgStartingDownloads LInfo"
  have c1: "counted st1 = 0" "total' st1 = length tasks"
    using assms by (simp_all add: st1_def Let_def)
  obtain futs fs' where rf: "run_futures env fs 0 tasks pd (truthy (cfg_force cfg)) (cfg_timeout cfg)
                         (cfg_retry cfg) (cfg_validate_existing cfg) (cfg_rate_limit_kbps cfg) = (futs, fs')"
    by (cases "run_futures env fs 0 tasks pd (truthy (cfg_force cfg)) (cfg_timeout cfg)
                         (cfg_retry cfg) (cfg_validate_existing cfg) (cfg_rate_limit_kbps cfg)")
  have len: "length futs = length tasks"
    using run_futures_length [of env fs 0 tasks pd "truthy (cfg_force cfg)" "cfg_timeout cfg"
                         "cfg_retry cfg" "cfg_validate_existing cfg" "cfg_rate_limit_kbps cfg"] rf by simp
  have d: "fst (dispatch env st fs cfg pd tasks) = finish_run env (collect_loop env st1 False 0 futs) pd"
    using False rf by (simp add: dispatch_def Let_def st1_def)
  show ?thesis
    unfolding d using collect_loop_counted [of env st1 False 0 futs] finish_run_counted [of env "collect_loop env st1 False 0 futs" pd] c1 len
    by simp
qed

lemma fetch_and_dispatch_counted:
  assumes "counted st = 0"
  shows "counted (fst (fetch_and_dispatch env st cfg pd)) \<le> total' (fst (fetch_and_dispatch env st cfg pd))"
  unfolding fetch_and_dispatch_def Let_def
  using assms
  by (auto split: sum.splits intro!: dispatch_counted)

lemma download_worker_main_counted:
  assumes "counted st = 0"
  shows "counted (fst (download_worker_main env params st)) \<le> total' (fst (download_worker_main env params st))"
  unfolding download_worker_main_def Let_def
  using assms
  by (auto split: sum.splits prod.splits json.splits intro!: fetch_and_dispatch_counted)


text \<open>
  C1. During a run the three counters together never exceed \<open>total\<close>, and a run in
  which the cancel flag is never set ends with their sum equal to \<open>total\<close>. The bound
  holds (\<open>collect_loop_counted\<close>, \<open>download_worker_main_counted\<close>). The equality fails: a
  worker whose download fails with an error text that contains \<^verbatim>\<open>Cancelled\<close> is
  classified as cancelled, and the coordinator counts nothing for it. Here the server
  answers \<^verbatim>\<open>503 Cancelled\<close> three times, no cancellation is ever requested, and the run
  completes with one task dispatched and none counted.
\<close>

theorem cancelled_text_leaves_task_uncounted:
  "outcome (download_file (network refusing_server) example_disk ''u1'' ''/pics/1.jpg'' 30 3 0) =
     Inr (False, Some ''After 3 attempts: HTTP Error 503: Cancelled'') \<and>
   (let st = fst (download_worker_main example_env [''picsdir'' \<mapsto> JStr ''/pics''] idle_state)
    in total' st = 1 \<and> processed st + skipped st + errors st = 0 \<and>
       \<not> cancel_flag st \<and> \<not> running st \<and>
       \<lparr>entry_type = LSuccess, entry_message = MsgRunCompleted\<rparr> \<in> set (logs st))"
  by code_simp

theorem cancelled_text_leaves_task_uncounted_witness:
  "(let st = fst (download_worker_main example_env [''picsdir'' \<mapsto> JStr ''/pics''] idle_state)
    in processed st + skipped st + errors st < total' st)"
  using cancelled_text_leaves_task_uncounted by (simp add: Let_def)

subsection \<open>The worker and a missing target directory\<close>

text \<open>
  A worker that finds the cancel flag set returns \<^verbatim>\<open>Cancelled\<close> before it looks at the
  directory: here the \<^verbatim>\<open>field\<close> folder is missing and the result is not \<^verbatim>\<open>Error\<close>.
\<close>

theorem missing_dir_cancelled_counterexample:
  "\<not> os_path_isdir example_disk (task_target_dir ''/pics'' field_task) \<and>
   outcome (download_worker_task cancelled_worker example_disk field_task ''/pics'' False 30 3 False 0) =
     Inr \<lparr>res_status = Cancelled, res_task = field_task, res_error = None\<rparr>"
  by code_simp

text \<open>
  C10. When the target directory of a task (the output root, or the sub-folder of the
  task under it) is no directory, \<^verbatim>\<open>download_worker_task\<close> makes no request and leaves the
  disk as it was, so it does not create the directory. Its result is \<^verbatim>\<open>Cancelled\<close> when
  it finds the cancel flag set on entry, and otherwise \<^verbatim>\<open>Error\<close> with the message that
  names the directory. The target of a field-crop task is the \<^verbatim>\<open>field\<close> folder under the
  root, so without that folder every field-crop task of a run that is not cancelled
  ends in \<^verbatim>\<open>Error\<close>.
\<close>

theorem missing_target_dir_no_download:
  assumes "\<not> os_path_isdir fs (task_target_dir picsdir t)"
  shows "requests (download_worker_task env fs t picsdir force timeout retry_count validate_existing rate_limit_kbps) = 0 \<and>
         disk (download_worker_task env fs t picsdir force timeout retry_count validate_existing rate_limit_kbps) = fs \<and>
         outcome (download_worker_task env fs t picsdir force timeout retry_count validate_existing rate_limit_kbps) =
           Inr (if cancel_on_entry env
                then \<lparr>res_status = Cancelled, res_task = t, res_error = None\<rparr>
                else \<lparr>res_status = Error, res_task = t,
                      res_error = Some (''Target directory not found: '' @ task_target_dir picsdir t)\<rparr>) \<and>
         (subfolder t = ''field'' \<longrightarrow> task_target_dir picsdir t = os_path_join picsdir ''field'')"
  using assms by (simp add: download_worker_task_def task_target_dir_def Let_def)

theorem missing_target_dir_no_download_witness:
  "\<not> os_path_isdir example_disk (task_target_dir ''/pics'' field_task) \<and>
   requests (download_worker_task refusing_server example_disk field_task ''/pics'' False 30 3 False 0) = 0 \<and>
   outcome (download_worker_task refusing_server example_disk field_task ''/pics'' False 30 3 False 0) =
     Inr \<lparr>res_status = Error, res_task = field_task,
          res_error = Some ''Target directory not found: /pics/field''\<rparr>"
proof -
  have d: "\<not> os_path_isdir example_disk (task_target_dir ''/pics'' field_task)" by code_simp
  have c: "\<not> cancel_on_entry refusing_server" by (simp add: refusing_server_def)
  have p: "task_target_dir ''/pics'' field_task = ''/pics/field''" by code_simp
  show ?thesis
    using missing_target_dir_no_download [OF d, of refusing_server False 30 3 False 0] d c p
    by simp
qed

subsection \<open>Fetch with retry and the temporary file\<close>

lemma remove_if_exists_exists:
  "remove_if_exists fs p = (fs', failed) \<Longrightarrow> os_path_exists fs' p = failed"
  by (auto simp: remove_if_exists_def os_remove_def os_path_exists_def
           split: if_splits option.splits node.splits)

lemma os_replace_source_gone:
  "os_replace fs src dst = Inr fs' \<Longrightarrow> src \<noteq> dst \<Longrightarrow> nodes fs' src = None"
  by (auto simp: os_replace_def Let_def split: option.splits node.splits if_splits)

lemma try_download_success:
  assumes "try_download fs temp outpath script = (None, fs')" and "temp \<noteq> outpath"
  shows "nodes fs' temp = None"
proof (cases script)
  case (UrlopenRaises e)
  then show ?thesis using assms by (simp add: try_download_def)
next
  case (Response header evs)
  then show ?thesis using assms
    by (auto simp: try_download_def Let_def split: option.splits sum.splits prod.splits if_splits
             dest: os_replace_source_gone)
qed

lemma attempts_loop_part_file:
  assumes "attempt \<le> max_retries"
    and "outcome (attempts_loop net fs u outpath max_retries attempt n) = Inr res"
  shows "os_path_exists (disk (attempts_loop net fs u outpath max_retries attempt n)) (outpath @ ''.part'') =
         cleanup_failed (attempts_loop net fs u outpath max_retries attempt n)"
  using assms
proof (induction net fs u outpath max_retries attempt n rule: attempts_loop.induct)
  case (1 net fs u outpath max_retries attempt n)
  let ?temp = "outpath @ ''.part''"
  have ne: "?temp \<noteq> outpath" by simp
  have le: "\<not> max_retries < attempt" using "1.prems"(1) by simp
  show ?case
  proof (cases "net u (nat attempt)")
    case CancelledBeforeAttempt
    obtain fs1 failed where r: "remove_if_exists fs ?temp = (fs1, failed)"
      by (cases "remove_if_exists fs ?temp")
    show ?thesis using CancelledBeforeAttempt le r remove_if_exists_exists [OF r]
      by (subst (1 2) attempts_loop.simps) (simp add: Let_def)
  next
    case (Fetch script)
    obtain r fs' where t: "try_download fs ?temp outpath script = (r, fs')"
      by (cases "try_download fs ?temp outpath script")
    obtain fs1 failed where c: "remove_if_exists fs' ?temp = (fs1, failed)"
      by (cases "remove_if_exists fs' ?temp")
    show ?thesis
    proof (cases r)
      case None
      then have "nodes fs' ?temp = None" using try_download_success [OF _ ne] t by simp
      then show ?thesis using Fetch t None le
        by (subst (1 2) attempts_loop.simps) (simp add: Let_def os_path_exists_def)
    next
      case (Some e)
      show ?thesis
      proof (cases "is_interrupted e")
        case True
        then show ?thesis using Fetch t Some le c remove_if_exists_exists [OF c]
          by (subst (1 2) attempts_loop.simps) (simp add: Let_def)
      next
        case False
        note ni = this
        show ?thesis
        proof (cases "is_retryable e")
          case False
          then show ?thesis using Fetch t Some ni le "1.prems"(2)
            by (subst (asm) attempts_loop.simps) (simp add: Let_def)
        next
          case True
          show ?thesis
          proof (cases "attempt = max_retries")
            case True
            then show ?thesis using Fetch t Some ni \<open>is_retryable e\<close> c remove_if_exists_exists [OF c]
              by (subst (1 2) attempts_loop.simps) (simp add: Let_def)
          next
            case False
            have step: "attempts_loop net fs u outpath max_retries attempt n =
                        attempts_loop net fs' u outpath max_retries (attempt + 1) (Suc n)"
              using Fetch t Some ni \<open>is_retryable e\<close> False le
              by (subst attempts_loop.simps) (simp add: Let_def)
            have "os_path_exists (disk (attempts_loop net fs' u outpath max_retries (attempt + 1) (Suc n))) ?temp =
                  cleanup_failed (attempts_loop net fs' u outpath max_retries (attempt + 1) (Suc n))"
            proof (rule "1.IH" [OF refl le Fetch t [symmetric] Some ni \<open>is_retryable e\<close> False])
              show "attempt + 1 \<le> max_retries" using False "1.prems"(1) by simp
              show "outcome (attempts_loop net fs' u outpath max_retries (attempt + 1) (Suc n)) = Inr res"
                using "1.prems"(2) step by simp
            qed
            then show ?thesis using step by simp
          qed
        qed
      qed
    qed
  qed
qed

lemma attempts_loop_none_allowed:
  "max_retries < attempt \<Longrightarrow>
   attempts_loop net fs u outpath max_retries attempt n =
     \<lparr>outcome = Inr (False, Some ''Max retries exceeded''), disk = fs, requests = n,
      cleanup_failed = False\<rparr>"
  by (subst attempts_loop.simps) (simp add: Let_def)

lemma remove_if_exists_removable:
  "removable fs p \<Longrightarrow> snd (remove_if_exists fs p) = False"
  by (auto simp: removable_def remove_if_exists_def os_remove_def os_path_exists_def os_path_isdir_def
           split: option.splits node.splits)

lemma f_write_removable: "removable fs p \<Longrightarrow> removable (f_write fs q c) p"
  by (auto simp: removable_def f_write_def os_path_isdir_def split: option.splits node.splits)

lemma stream_loop_removable:
  "removable fs p \<Longrightarrow> removable (snd (stream_loop fs q evs)) p"
  by (induction fs q evs rule: stream_loop.induct) (simp_all add: f_write_removable)

lemma open_wb_removable: "open_wb fs q = Inr fs' \<Longrightarrow> removable fs p \<Longrightarrow> removable fs' p"
  by (auto simp: removable_def open_wb_def os_path_isdir_def split: if_splits option.splits)

lemma os_replace_removable:
  "os_replace fs src dst = Inr fs' \<Longrightarrow> removable fs p \<Longrightarrow> removable fs' p"
  by (auto simp: removable_def os_replace_def os_path_isdir_def Let_def
           split: if_splits option.splits node.splits)

lemma try_download_removable:
  assumes "removable fs p"
  shows "removable (snd (try_download fs temp outpath script)) p"
proof (cases script)
  case (UrlopenRaises e)
  then show ?thesis using assms by (simp add: try_download_def)
next
  case (Response header evs)
  show ?thesis
  proof (cases "open_wb fs temp")
    case (Inl e)
    then show ?thesis using Response assms by (simp add: try_download_def Let_def)
  next
    case (Inr fs1)
    obtain r fs2 where s: "stream_loop fs1 temp evs = (r, fs2)" by (cases "stream_loop fs1 temp evs")
    have r2: "removable fs2 p"
      using stream_loop_removable [OF open_wb_removable [OF Inr assms], of temp evs] s by simp
    show ?thesis using Response Inr s r2 assms
      by (auto simp: try_download_def Let_def split: option.splits sum.splits
               dest: os_replace_removable)
  qed
qed

lemma attempts_loop_cleanup:
  assumes "removable fs (outpath @ ''.part'')"
  shows "\<not> cleanup_failed (attempts_loop net fs u outpath max_retries attempt n)"
  using assms
proof (induction net fs u outpath max_retries attempt n rule: attempts_loop.induct)
  case (1 net fs u outpath max_retries attempt n)
  let ?temp = "outpath @ ''.part''"
  show ?case
  proof (cases "max_retries < attempt")
    case True
    then show ?thesis by (simp add: attempts_loop_none_allowed)
  next
    case le: False
    show ?thesis
    proof (cases "net u (nat attempt)")
      case CancelledBeforeAttempt
      then show ?thesis using le remove_if_exists_removable [OF "1.prems"]
        by (subst attempts_loop.simps) (simp add: Let_def split_beta)
    next
      case (Fetch script)
      obtain r fs' where t: "try_download fs ?temp outpath script = (r, fs')"
        by (cases "try_download fs ?temp outpath script")
      have rm: "removable fs' ?temp"
        using try_download_removable [OF "1.prems", of ?temp outpath script] t by simp
      show ?thesis
      proof (cases r)
        case None
        then show ?thesis using Fetch t le
          by (subst attempts_loop.simps) (simp add: Let_def)
      next
        case (Some e)
        show ?thesis
        proof (cases "\<not> is_interrupted e \<and> is_retryable e \<and> attempt \<noteq> max_retries")
          case True
          have step: "attempts_loop net fs u outpath max_retries attempt n =
                      attempts_loop net fs' u outpath max_retries (attempt + 1) (Suc n)"
            using Fetch t Some True le
            by (subst attempts_loop.simps) (simp add: Let_def)
          have "\<not> cleanup_failed (attempts_loop net fs' u outpath max_retries (attempt + 1) (Suc n))"
            using True by (intro "1.IH" [OF refl le Fetch t [symmetric] Some _ _ _ rm]) simp_all
          then show ?thesis using step by simp
        next
          case False
          then show ?thesis using Fetch t Some le remove_if_exists_removable [OF rm]
            by (subst attempts_loop.simps) (auto simp: Let_def split_beta)
        qed
      qed
    qed
  qed
qed

lemma download_file_cleanup_succeeds:
  "\<not> no_remove fs (outpath @ ''.part'') \<Longrightarrow> \<not> os_path_isdir fs (outpath @ ''.part'') \<Longrightarrow>
   \<not> cleanup_failed (download_file net fs url' outpath timeout max_retries rate_limit_kbps)"
  by (simp add: download_file_def attempts_loop_cleanup removable_def)

text \<open>
  Two calls that return with the temporary file still in place. With no attempt
  allowed the loop body never runs and the file an earlier run left is not touched;
  and when \<^verbatim>\<open>os.remove\<close> is refused, the cancelled call ignores the failure.
\<close>

theorem part_file_left_counterexample:
  "outcome (download_file good_server stale_disk ''u1'' ''/pics/1.jpg'' 30 0 0) =
     Inr (False, Some ''Max retries exceeded'') \<and>
   os_path_exists (disk (download_file good_server stale_disk ''u1'' ''/pics/1.jpg'' 30 0 0))
     (''/pics/1.jpg'' @ ''.part'') \<and>
   outcome (download_file cancelling_network locked_disk ''u1'' ''/pics/1.jpg'' 30 3 0) =
     Inr (False, Some ''Cancelled by user'') \<and>
   os_path_exists (disk (download_file cancelling_network locked_disk ''u1'' ''/pics/1.jpg'' 30 3 0))
     (''/pics/1.jpg'' @ ''.part'')"
  by code_simp

text \<open>
  C2. When a call of \<^verbatim>\<open>download_file\<close> returns, with success, with the error after the
  last attempt or cancelled, nothing exists at \<^verbatim>\<open>outpath + ".part"\<close>, with two
  exceptions and no other: the \<^verbatim>\<open>os.remove\<close> of the call's own cleanup raised, which the
  code ignores, or no attempt was allowed (\<open>max_retries < 1\<close>) and the path existed
  before the call. The removal does not raise when the operating system does not
  refuse it and the path is no directory.
\<close>

theorem download_file_part_file_exactly:
  assumes "outcome (download_file net fs url' outpath timeout max_retries rate_limit_kbps) = Inr res"
  shows "os_path_exists (disk (download_file net fs url' outpath timeout max_retries rate_limit_kbps))
           (outpath @ ''.part'') =
         (cleanup_failed (download_file net fs url' outpath timeout max_retries rate_limit_kbps) \<or>
          (max_retries < 1 \<and> os_path_exists fs (outpath @ ''.part'')))
         \<and> (\<not> no_remove fs (outpath @ ''.part'') \<and> \<not> os_path_isdir fs (outpath @ ''.part'') \<longrightarrow>
              \<not> cleanup_failed (download_file net fs url' outpath timeout max_retries rate_limit_kbps))"
proof (cases "1 \<le> max_retries")
  case True
  then show ?thesis
    using assms attempts_loop_part_file [of 1 max_retries net fs url' outpath 0 res]
      download_file_cleanup_succeeds [of fs outpath net url' timeout max_retries rate_limit_kbps]
    by (simp add: download_file_def)
next
  case False
  then show ?thesis
    by (simp add: download_file_def attempts_loop_none_allowed)
qed

theorem download_file_part_file_exactly_witness:
  "outcome (download_file good_server stale_disk ''u1'' ''/pics/1.jpg'' 30 3 0) = Inr (True, None) \<and>
   outcome (download_file cut_off_server stale_disk ''u1'' ''/pics/1.jpg'' 30 3 0) =
     Inr (False, Some ''After 3 attempts: Downloaded file is not a valid JPEG'') \<and>
   outcome (download_file cut_off_server read_only_disk ''u1'' ''/pics/1.jpg'' 30 3 0) =
     Inr (False, Some (''After 3 attempts: [Errno 13] Permission denied: '' @ py_repr ''/pics/1.jpg.part'')) \<and>
   \<not> os_path_exists (disk (download_file good_server stale_disk ''u1'' ''/pics/1.jpg'' 30 3 0))
       (''/pics/1.jpg'' @ ''.part'') \<and>
   \<not> os_path_exists (disk (download_file cut_off_server stale_disk ''u1'' ''/pics/1.jpg'' 30 3 0))
       (''/pics/1.jpg'' @ ''.part'') \<and>
   \<not> os_path_exists (disk (download_file cut_off_server read_only_disk ''u1'' ''/pics/1.jpg'' 30 3 0))
       (''/pics/1.jpg'' @ ''.part'')"
proof -
  have a: "outcome (download_file good_server stale_disk ''u1'' ''/pics/1.jpg'' 30 3 0) = Inr (True, None)"
    by code_simp
  have b: "outcome (download_file cut_off_server stale_disk ''u1'' ''/pics/1.jpg'' 30 3 0) =
     Inr (False, Some ''After 3 attempts: Downloaded file is not a valid JPEG'')"
    by code_simp
  have c: "outcome (download_file cut_off_server read_only_disk ''u1'' ''/pics/1.jpg'' 30 3 0) =
     Inr (False, Some (''After 3 attempts: [Errno 13] Permission denied: '' @ py_repr ''/pics/1.jpg.part''))"
    by code_simp
  have fa: "\<not> cleanup_failed (download_file good_server stale_disk ''u1'' ''/pics/1.jpg'' 30 3 0)"
    by code_simp
  have fb: "\<not> cleanup_failed (download_file cut_off_server stale_disk ''u1'' ''/pics/1.jpg'' 30 3 0)"
    by code_simp
  have fc: "\<not> cleanup_failed (download_file cut_off_server read_only_disk ''u1'' ''/pics/1.jpg'' 30 3 0)"
    by code_simp
  show ?thesis
    using download_file_part_file_exactly [OF a] download_file_part_file_exactly [OF b]
          download_file_part_file_exactly [OF c] a b c fa fb fc
    by simp
qed

end
